theory Spec2Isabelle
  imports Main "HOL-Library.Sublist"
begin

section \<open>JavaScript strings\<close>

text \<open>
  A JavaScript string is a sequence of UTF-16 code units; \<open>length\<close> counts code units,
  as \<^verbatim>\<open>String.prototype.length\<close> does. A code unit is written as an integer
  (\<open>0x51FA\<close> is U+51FA); ASCII text is written with \<open>ascii\<close>.
\<close>

type_synonym jsstring = "int list"

definition ascii :: "string \<Rightarrow> jsstring" where
  "ascii cs = map of_char cs"

text \<open>WhiteSpace and LineTerminator of ECMAScript: what \<^verbatim>\<open>\s\<close> matches and
  what \<^verbatim>\<open>trim()\<close> strips.\<close>

definition isLineTerminator :: "int \<Rightarrow> bool" where
  "isLineTerminator c = (c = 0xA \<or> c = 0xD \<or> c = 0x2028 \<or> c = 0x2029)"

definition isWhiteSpace :: "int \<Rightarrow> bool" where
  "isWhiteSpace c =
     (c = 0x9 \<or> c = 0xA \<or> c = 0xB \<or> c = 0xC \<or> c = 0xD \<or> c = 0x20 \<or> c = 0xA0 \<or> c = 0x1680
      \<or> (0x2000 \<le> c \<and> c \<le> 0x200A) \<or> c = 0x2028 \<or> c = 0x2029 \<or> c = 0x202F \<or> c = 0x205F
      \<or> c = 0x3000 \<or> c = 0xFEFF)"

definition trim :: "jsstring \<Rightarrow> jsstring" where
  "trim s = rev (dropWhile isWhiteSpace (rev (dropWhile isWhiteSpace s)))"

text \<open>\<^verbatim>\<open>s.includes(t)\<close>: \<open>t\<close> occurs in \<open>s\<close> as a contiguous run.\<close>

fun js_includes :: "jsstring \<Rightarrow> jsstring \<Rightarrow> bool" where
  "js_includes [] t = (t = [])"
| "js_includes (c # s) t = (prefix t (c # s) \<or> js_includes s t)"

text \<open>Iterating a string (\<^verbatim>\<open>new Set(str)\<close>) yields code points: a high surrogate
  followed by a low surrogate is one element.\<close>

fun codePoints :: "jsstring \<Rightarrow> int list" where
  "codePoints (h # l # s) =
     (if 0xD800 \<le> h \<and> h \<le> 0xDBFF \<and> 0xDC00 \<le> l \<and> l \<le> 0xDFFF
      then (0x10000 + (h - 0xD800) * 0x400 + (l - 0xDC00)) # codePoints s
      else h # codePoints (l # s))"
| "codePoints s = s"

text \<open>\<^verbatim>\<open>new Set(xs).size\<close>: the number of distinct elements.\<close>

definition setSize :: "'a list \<Rightarrow> nat" where
  "setSize xs = length (remdups xs)"

section \<open>Regular expressions\<close>

text \<open>
  The patterns of the sources use literals, character classes, \<^verbatim>\<open>.\<close>, the anchors
  \<^verbatim>\<open>^\<close> and \<^verbatim>\<open>$\<close>, sequencing and (greedy or lazy) repetition, with the flags
  \<^verbatim>\<open>i\<close> and \<^verbatim>\<open>m\<close>. \<open>rx_match\<close> is the backtracking matcher of ECMAScript for
  that fragment: it lists, in the order backtracking tries them, every index at which a
  match starting at \<open>i\<close> can end. The first element is the match \<^verbatim>\<open>exec\<close> reports.
\<close>

datatype citem = CRange int int | CChar int | CSpace | CDigit | CWord

datatype regex =
    Lit int | Cls "citem list" | NCls "citem list" | Dot | Bol | Eol | Eps
  | Cat regex regex
  | Rep nat "nat option" bool regex

record jsregexp =
  pattern :: regex
  ignoreCase :: bool
  multiline :: bool

definition Str :: "int list \<Rightarrow> regex" where
  "Str cs = foldr (\<lambda>c r. Cat (Lit c) r) cs Eps"

definition Cats :: "regex list \<Rightarrow> regex" where
  "Cats rs = foldr Cat rs Eps"

text \<open>Canonicalize of the \<^verbatim>\<open>i\<close> flag. Every cased character of the patterns and
  classes below is ASCII, and a non-ASCII character never canonicalizes to an ASCII one,
  so the ASCII case mapping decides every comparison the sources make.\<close>

definition toUpperAscii :: "int \<Rightarrow> int" where
  "toUpperAscii c = (if 0x61 \<le> c \<and> c \<le> 0x7A then c - 0x20 else c)"

definition toLowerAscii :: "int \<Rightarrow> int" where
  "toLowerAscii c = (if 0x41 \<le> c \<and> c \<le> 0x5A then c + 0x20 else c)"

fun citem_match :: "bool \<Rightarrow> citem \<Rightarrow> int \<Rightarrow> bool" where
  "citem_match ic (CRange lo hi) c =
     ((lo \<le> c \<and> c \<le> hi) \<or>
      (ic \<and> ((lo \<le> toUpperAscii c \<and> toUpperAscii c \<le> hi)
            \<or> (lo \<le> toLowerAscii c \<and> toLowerAscii c \<le> hi))))"
| "citem_match ic (CChar a) c = (if ic then toUpperAscii a = toUpperAscii c else a = c)"
| "citem_match ic CSpace c = isWhiteSpace c"
| "citem_match ic CDigit c = (0x30 \<le> c \<and> c \<le> 0x39)"
| "citem_match ic CWord c =
     ((0x30 \<le> c \<and> c \<le> 0x39) \<or> (0x41 \<le> c \<and> c \<le> 0x5A) \<or> c = 0x5F \<or> (0x61 \<le> c \<and> c \<le> 0x7A))"

fun dec_max :: "nat option \<Rightarrow> nat option" where
  "dec_max None = None"
| "dec_max (Some k) = Some (k - 1)"

text \<open>RepeatMatcher: \<open>step\<close> matches the repeated atom once. While \<open>mn\<close> iterations are
  still owed an iteration may be empty; afterwards an iteration that consumes nothing is
  rejected. A greedy repetition tries one more iteration before stopping, a lazy one
  stops first. (\<open>n\<close> is the length of the input; an end index never exceeds it.)\<close>

function rep_match ::
  "(nat \<Rightarrow> nat list) \<Rightarrow> nat \<Rightarrow> nat \<Rightarrow> nat option \<Rightarrow> bool \<Rightarrow> nat \<Rightarrow> nat list" where
  "rep_match step n mn mx greedy i =
     (if mx = Some 0 then [i]
      else if 0 < mn then concat (map (rep_match step n (mn - 1) (dec_max mx) greedy) (step i))
      else (let more = concat (map (rep_match step n 0 (dec_max mx) greedy)
                                   (filter (\<lambda>j. i < j \<and> j \<le> n) (step i)))
            in if greedy then more @ [i] else i # more))"
  by pat_completeness auto
termination
  by (relation "measures [\<lambda>(step, n, mn, mx, greedy, i). mn, \<lambda>(step, n, mn, mx, greedy, i). n - i]")
     auto

declare rep_match.simps [simp del]

primrec rx_match :: "bool \<Rightarrow> bool \<Rightarrow> regex \<Rightarrow> jsstring \<Rightarrow> nat \<Rightarrow> nat list" where
  "rx_match ic ml (Lit a) s i =
     (if i < length s \<and> citem_match ic (CChar a) (s ! i) then [Suc i] else [])"
| "rx_match ic ml (Cls items) s i =
     (if i < length s \<and> list_ex (\<lambda>it. citem_match ic it (s ! i)) items then [Suc i] else [])"
| "rx_match ic ml (NCls items) s i =
     (if i < length s \<and> \<not> list_ex (\<lambda>it. citem_match ic it (s ! i)) items then [Suc i] else [])"
| "rx_match ic ml Dot s i =
     (if i < length s \<and> \<not> isLineTerminator (s ! i) then [Suc i] else [])"
| "rx_match ic ml Bol s i =
     (if i = 0 \<or> (ml \<and> i \<le> length s \<and> isLineTerminator (s ! (i - 1))) then [i] else [])"
| "rx_match ic ml Eol s i =
     (if i = length s \<or> (ml \<and> i < length s \<and> isLineTerminator (s ! i)) then [i] else [])"
| "rx_match ic ml Eps s i = [i]"
| "rx_match ic ml (Cat a b) s i = concat (map (rx_match ic ml b s) (rx_match ic ml a s i))"
| "rx_match ic ml (Rep mn mx greedy r) s i =
     rep_match (rx_match ic ml r s) (length s) mn mx greedy i"

definition matchAt :: "jsregexp \<Rightarrow> jsstring \<Rightarrow> nat \<Rightarrow> nat list" where
  "matchAt re s i = rx_match (ignoreCase re) (multiline re) (pattern re) s i"

text \<open>\<^verbatim>\<open>re.test(s)\<close> for a pattern without the \<^verbatim>\<open>g\<close> flag: some start index has a
  match.\<close>

definition regexp_test :: "jsregexp \<Rightarrow> jsstring \<Rightarrow> bool" where
  "regexp_test re s = list_ex (\<lambda>i. matchAt re s i \<noteq> []) [0..<Suc (length s)]"

text \<open>\<^verbatim>\<open>s.replace(re, rep)\<close> for a pattern with the \<^verbatim>\<open>g\<close> flag and a replacement
  without \<^verbatim>\<open>$\<close>: scanning from the left, the first match at the earliest index is
  replaced and the scan continues behind it; after an empty match the scan advances by
  one code unit, which is kept.\<close>

function replace_from :: "(nat \<Rightarrow> nat list) \<Rightarrow> jsstring \<Rightarrow> jsstring \<Rightarrow> nat \<Rightarrow> jsstring" where
  "replace_from m rep s i =
     (if length s < i then []
      else (case m i of
              [] \<Rightarrow> (if i < length s then s ! i # replace_from m rep s (Suc i) else [])
            | e # _ \<Rightarrow>
                if i < e \<and> e \<le> length s then rep @ replace_from m rep s e
                else rep @ (if i < length s then s ! i # replace_from m rep s (Suc i) else [])))"
  by pat_completeness auto
termination
  by (relation "measure (\<lambda>(m, rep, s, i). Suc (length s) - i)") auto

declare replace_from.simps [simp del]

definition replaceAll :: "jsregexp \<Rightarrow> jsstring \<Rightarrow> jsstring \<Rightarrow> jsstring" where
  "replaceAll re rep s = replace_from (matchAt re s) rep s 0"

text \<open>\<^verbatim>\<open>(s.match(re) || []).length\<close> for a pattern with the \<^verbatim>\<open>g\<close> flag: the number
  of matches the same scan finds.\<close>

function count_from :: "(nat \<Rightarrow> nat list) \<Rightarrow> nat \<Rightarrow> nat \<Rightarrow> nat" where
  "count_from m n i =
     (if n < i then 0
      else (case m i of
              [] \<Rightarrow> count_from m n (Suc i)
            | e # _ \<Rightarrow> Suc (count_from m n (if i < e \<and> e \<le> n then e else Suc i))))"
  by pat_completeness auto
termination
  by (relation "measure (\<lambda>(m, n, i). Suc n - i)") auto

declare count_from.simps [simp del]

definition matchCount :: "jsregexp \<Rightarrow> jsstring \<Rightarrow> nat" where
  "matchCount re s = count_from (matchAt re s) (length s) 0"

text \<open>\<^verbatim>\<open>s.split(re)\<close>: \<open>p\<close> is where the current piece starts, \<open>q\<close> where a separator
  is tried next; a separator match that ends at \<open>p\<close> is skipped.\<close>

function split_from :: "(nat \<Rightarrow> nat list) \<Rightarrow> jsstring \<Rightarrow> nat \<Rightarrow> nat \<Rightarrow> jsstring list" where
  "split_from m s p q =
     (if length s \<le> q then [drop p s]
      else (case m q of
              [] \<Rightarrow> split_from m s p (Suc q)
            | e # _ \<Rightarrow>
                if e = p \<or> e < q \<or> length s < e then split_from m s p (Suc q)
                else take (q - p) (drop p s) # split_from m s e e))"
  by pat_completeness auto
termination
  by (relation "measures [\<lambda>(m, s, p, q). length s - q, \<lambda>(m, s, p, q). if p = q then 0 else 1]")
     auto

declare split_from.simps [simp del]

definition splitRe :: "jsregexp \<Rightarrow> jsstring \<Rightarrow> jsstring list" where
  "splitRe re s =
     (if s = [] then (if matchAt re s 0 \<noteq> [] then [] else [s])
      else split_from (matchAt re s) s 0 0)"

section \<open>The PDF processor (\<^verbatim>\<open>src/services/pdfProcessor.ts\<close>)\<close>

subsection \<open>Chunks and documents\<close>

text \<open>A chunk's \<^verbatim>\<open>metadata\<close> is a JavaScript object that later stages spread and
  extend (\<^verbatim>\<open>{...chunk.metadata, chunkIndex: n}\<close>): a map from property names to values.\<close>

datatype jsvalue = JNum int | JBool bool | JStr jsstring

record 'e chunk =
  content :: jsstring
  metadata :: "string \<rightharpoonup> jsvalue"
  embedding :: 'e

record doc_metadata =
  fileSize :: nat
  needsReview :: bool
  cleanedText :: bool

record processingStats =
  originalTextLength :: nat
  cleanedTextLength :: nat
  embeddingModel :: "jsstring option"

text \<open>\<^verbatim>\<open>ProcessedDocument\<close>. The PDF info fields (title, author, ...), the two clock
  readings and the rounded average chunk size are passed through from the collaborators
  and are left out.\<close>

record 'a ProcessedDocument =
  filename :: jsstring
  totalPages :: nat
  totalChunks :: nat
  chunks :: "'a list option chunk list"
  doc_meta :: doc_metadata
  stats :: processingStats

subsection \<open>Model profiles\<close>

text \<open>An entry of \<^verbatim>\<open>EMBEDDING_MODELS\<close>; the \<^verbatim>\<open>description\<close> strings are left
  out.\<close>

record modelConfig =
  name :: jsstring
  dimensions :: nat
  maxTokens :: nat
  instruction :: jsstring

text \<open>The instruction of the two BGE v1.5 profiles:
  \<^verbatim>\<open>\u4e3a\u8fd9\u4e2a\u53e5\u5b50\u751f\u6210\u8868\u793a\u4ee5\u7528\u4e8e\u68c0\u7d22\u76f8\u5173\u6587\u7ae0\uff1a\<close>\<close>

definition bgeInstruction :: jsstring where
  "bgeInstruction =
     [0x4E3A, 0x8FD9, 0x4E2A, 0x53E5, 0x5B50, 0x751F, 0x6210, 0x8868, 0x793A, 0x4EE5, 0x7528,
      0x4E8E, 0x68C0, 0x7D22, 0x76F8, 0x5173, 0x6587, 0x7AE0, 0xFF1A]"

definition EMBEDDING_MODELS :: "(string \<times> modelConfig) list" where
  "EMBEDDING_MODELS =
    [(''bge-large-zh-v1.5'',
        \<lparr>name = ascii ''BAAI/bge-large-zh-v1.5'', dimensions = 1024, maxTokens = 512,
          instruction = bgeInstruction\<rparr>),
     (''bge-base-zh-v1.5'',
        \<lparr>name = ascii ''BAAI/bge-base-zh-v1.5'', dimensions = 768, maxTokens = 512,
          instruction = bgeInstruction\<rparr>),
     (''bge-m3'',
        \<lparr>name = ascii ''BAAI/bge-m3'', dimensions = 1024, maxTokens = 8192, instruction = []\<rparr>),
     (''all-MiniLM-L6-v2'',
        \<lparr>name = ascii ''sentence-transformers/all-MiniLM-L6-v2'', dimensions = 384,
          maxTokens = 256, instruction = []\<rparr>),
     (''all-mpnet-base-v2'',
        \<lparr>name = ascii ''sentence-transformers/all-mpnet-base-v2'', dimensions = 768,
          maxTokens = 384, instruction = []\<rparr>),
     (''all-MiniLM-L12-v2'',
        \<lparr>name = ascii ''sentence-transformers/all-MiniLM-L12-v2'', dimensions = 384,
          maxTokens = 256, instruction = []\<rparr>),
     (''gte-qwen2-1.5b'',
        \<lparr>name = ascii ''Alibaba-NLP/gte-Qwen2-1.5B-instruct'', dimensions = 1536,
          maxTokens = 32000, instruction = []\<rparr>)]"

text \<open>The constructor: \<^verbatim>\<open>process.env.EMBEDDING_MODEL || 'all-MiniLM-L6-v2'\<close>, and the
  default profile again when the registry does not know the identifier.\<close>

definition defaultModel :: modelConfig where
  "defaultModel =
     \<lparr>name = ascii ''sentence-transformers/all-MiniLM-L6-v2'', dimensions = 384,
       maxTokens = 256, instruction = []\<rparr>"

definition selectModel :: "string option \<Rightarrow> modelConfig" where
  "selectModel env =
     (let embeddingModel = (case env of None \<Rightarrow> ''all-MiniLM-L6-v2''
                            | Some v \<Rightarrow> if v = [] then ''all-MiniLM-L6-v2'' else v)
      in case map_of EMBEDDING_MODELS embeddingModel of
           Some modelConfig \<Rightarrow> modelConfig
         | None \<Rightarrow> defaultModel)"

subsection \<open>Embedding generation\<close>

datatype error = LoadModelError | PipelineError | EmbeddingFormatError
  | ReadError | ParseError | SplitError

text \<open>What the feature-extraction pipeline can hand back, as \<^verbatim>\<open>generateEmbedding\<close>
  tells the cases apart: an object with a \<^verbatim>\<open>data\<close> property (a tensor), an array whose
  first element is an array, any other array, and anything else.\<close>

datatype 'a pipeline_result =
    WithData "'a list"
  | ArrayOfArrays "'a list" "'a list list"
  | FlatArray "'a list"
  | Unrecognised

text \<open>The transformers library: loading the pipeline resolves or rejects, a call of the
  loaded pipeline returns a result or throws; both may depend on and change the state
  \<open>'w\<close> of the library.\<close>

record ('a, 'w) transformers =
  loadPipeline :: "jsstring \<Rightarrow> 'w \<Rightarrow> bool \<times> 'w"
  callPipeline :: "'w \<Rightarrow> jsstring \<Rightarrow> 'a pipeline_result option \<times> 'w"

text \<open>The processor's mutable state: whether \<^verbatim>\<open>this.embeddingPipeline\<close> is set, and the
  library's state.\<close>

record 'w processor =
  embeddingPipeline :: bool
  world :: 'w

definition initEmbeddingModel ::
  "('a, 'w) transformers \<Rightarrow> modelConfig \<Rightarrow> 'w processor \<Rightarrow> (error + unit) \<times> 'w processor" where
  "initEmbeddingModel lib cfg st =
     (if embeddingPipeline st then (Inr (), st)
      else (case loadPipeline lib (name cfg) (world st) of
              (True, w) \<Rightarrow> (Inr (), st\<lparr>embeddingPipeline := True, world := w\<rparr>)
            | (False, w) \<Rightarrow> (Inl LoadModelError, st\<lparr>world := w\<rparr>)))"

definition generateEmbedding ::
  "('a, 'w) transformers \<Rightarrow> modelConfig \<Rightarrow> 'w processor \<Rightarrow> jsstring
     \<Rightarrow> (error + 'a list) \<times> 'w processor" where
  "generateEmbedding lib cfg st text =
     (case initEmbeddingModel lib cfg st of
        (Inl e, st1) \<Rightarrow> (Inl e, st1)
      | (Inr _, st1) \<Rightarrow>
          (let inputText = (if instruction cfg \<noteq> [] then instruction cfg @ text else text)
           in case callPipeline lib (world st1) inputText of
                (None, w) \<Rightarrow> (Inl PipelineError, st1\<lparr>world := w\<rparr>)
              | (Some result, w) \<Rightarrow>
                  (case result of
                     WithData d \<Rightarrow> (Inr d, st1\<lparr>world := w\<rparr>)
                   | ArrayOfArrays first rest \<Rightarrow> (Inr first, st1\<lparr>world := w\<rparr>)
                   | FlatArray xs \<Rightarrow> (Inr xs, st1\<lparr>world := w\<rparr>)
                   | Unrecognised \<Rightarrow> (Inl EmbeddingFormatError, st1\<lparr>world := w\<rparr>))))"

subsection \<open>Text cleaning\<close>

text \<open>\<^verbatim>\<open>/\s+/g\<close>\<close>

definition whitespaceRuns :: jsregexp where
  "whitespaceRuns =
     \<lparr>pattern = Rep 1 None True (Cls [CSpace]), ignoreCase = False,
       multiline = False\<rparr>"

text \<open>\<^verbatim>\<open>/\n\s*\n/g\<close>\<close>

definition blankLines :: jsregexp where
  "blankLines =
     \<lparr>pattern = Cats [Lit 0xA, Rep 0 None True (Cls [CSpace]), Lit 0xA],
       ignoreCase = False, multiline = False\<rparr>"

text \<open>\<^verbatim>\<open>publisherPatterns\<close>, in the order of the source:
  \<^item> \<^verbatim>\<open>/^.*\u51fa\u7248\u793e.*$/gm\<close>
  \<^item> \<^verbatim>\<open>/^.*Publishing.*$/gim\<close>
  \<^item> \<^verbatim>\<open>/^.*Press.*$/gim\<close>
  \<^item> \<^verbatim>\<open>/^Copyright.*\d{4}.*$/gim\<close>
  \<^item> \<^verbatim>\<open>/^\u7248\u6743\u6240\u6709.*$/gm\<close>
\<close>

definition publisherPatterns :: "jsregexp list" where
  "publisherPatterns =
    [\<lparr>pattern = Cats [Bol, Rep 0 None True Dot, Str [0x51FA, 0x7248, 0x793E],
       Rep 0 None True Dot, Eol], ignoreCase = False, multiline = True\<rparr>,
     \<lparr>pattern = Cats [Bol, Rep 0 None True Dot, Str [0x50, 0x75, 0x62, 0x6C, 0x69, 0x73,
       0x68, 0x69, 0x6E, 0x67], Rep 0 None True Dot, Eol], ignoreCase = True,
       multiline = True\<rparr>,
     \<lparr>pattern = Cats [Bol, Rep 0 None True Dot, Str [0x50, 0x72, 0x65, 0x73, 0x73],
       Rep 0 None True Dot, Eol], ignoreCase = True, multiline = True\<rparr>,
     \<lparr>pattern = Cats [Bol, Str [0x43, 0x6F, 0x70, 0x79, 0x72, 0x69, 0x67, 0x68, 0x74],
       Rep 0 None True Dot, Rep 4 (Some 4) True (Cls [CDigit]), Rep 0 None True Dot, Eol],
       ignoreCase = True, multiline = True\<rparr>,
     \<lparr>pattern = Cats [Bol, Str [0x7248, 0x6743, 0x6240, 0x6709], Rep 0 None True Dot, Eol],
       ignoreCase = False, multiline = True\<rparr>]"

text \<open>\<^verbatim>\<open>authorPatterns\<close>, in the order of the source:
  \<^item> \<^verbatim>\<open>/^\u4f5c\u8005[\uff1a:]\s*[\u4e00-\u9fa5a-zA-Z\s]+$/gm\<close>
  \<^item> \<^verbatim>\<open>/^\u7f16\u8457[\uff1a:]\s*[\u4e00-\u9fa5a-zA-Z\s]+$/gm\<close>
  \<^item> \<^verbatim>\<open>/^\u4e3b\u7f16[\uff1a:]\s*[\u4e00-\u9fa5a-zA-Z\s]+$/gm\<close>
  \<^item> \<^verbatim>\<open>/^Author[s]?[\uff1a:]\s*[a-zA-Z\s]+$/gim\<close>
  \<^item> \<^verbatim>\<open>/^By\s+[a-zA-Z\s]+$/gim\<close>
\<close>

definition authorPatterns :: "jsregexp list" where
  "authorPatterns =
    [\<lparr>pattern = Cats [Bol, Str [0x4F5C, 0x8005], Cls [CChar 0xFF1A, CChar 0x3A],
       Rep 0 None True (Cls [CSpace]), Rep 1 None True (Cls [CRange 0x4E00 0x9FA5, CRange 0x61 0x7A,
       CRange 0x41 0x5A, CSpace]), Eol], ignoreCase = False, multiline = True\<rparr>,
     \<lparr>pattern = Cats [Bol, Str [0x7F16, 0x8457], Cls [CChar 0xFF1A, CChar 0x3A],
       Rep 0 None True (Cls [CSpace]), Rep 1 None True (Cls [CRange 0x4E00 0x9FA5, CRange 0x61 0x7A,
       CRange 0x41 0x5A, CSpace]), Eol], ignoreCase = False, multiline = True\<rparr>,
     \<lparr>pattern = Cats [Bol, Str [0x4E3B, 0x7F16], Cls [CChar 0xFF1A, CChar 0x3A],
       Rep 0 None True (Cls [CSpace]), Rep 1 None True (Cls [CRange 0x4E00 0x9FA5, CRange 0x61 0x7A,
       CRange 0x41 0x5A, CSpace]), Eol], ignoreCase = False, multiline = True\<rparr>,
     \<lparr>pattern = Cats [Bol, Str [0x41, 0x75, 0x74, 0x68, 0x6F, 0x72],
       Rep 0 (Some 1) True (Cls [CChar 0x73]), Cls [CChar 0xFF1A, CChar 0x3A],
       Rep 0 None True (Cls [CSpace]), Rep 1 None True (Cls [CRange 0x61 0x7A, CRange 0x41 0x5A,
       CSpace]), Eol], ignoreCase = True, multiline = True\<rparr>,
     \<lparr>pattern = Cats [Bol, Str [0x42, 0x79], Rep 1 None True (Cls [CSpace]),
       Rep 1 None True (Cls [CRange 0x61 0x7A, CRange 0x41 0x5A, CSpace]), Eol], ignoreCase = True,
       multiline = True\<rparr>]"

text \<open>\<^verbatim>\<open>headerFooterPatterns\<close>, in the order of the source:
  \<^item> \<^verbatim>\<open>/^\u7b2c\s*\d+\s*\u9875$/gm\<close>
  \<^item> \<^verbatim>\<open>/^Page\s*\d+$/gim\<close>
  \<^item> \<^verbatim>\<open>/^\s*\d+\s*$/gm\<close>
\<close>

definition headerFooterPatterns :: "jsregexp list" where
  "headerFooterPatterns =
    [\<lparr>pattern = Cats [Bol, Lit 0x7B2C, Rep 0 None True (Cls [CSpace]),
       Rep 1 None True (Cls [CDigit]), Rep 0 None True (Cls [CSpace]), Lit 0x9875, Eol],
       ignoreCase = False, multiline = True\<rparr>,
     \<lparr>pattern = Cats [Bol, Str [0x50, 0x61, 0x67, 0x65], Rep 0 None True (Cls [CSpace]),
       Rep 1 None True (Cls [CDigit]), Eol], ignoreCase = True, multiline = True\<rparr>,
     \<lparr>pattern = Cats [Bol, Rep 0 None True (Cls [CSpace]), Rep 1 None True (Cls [CDigit]),
       Rep 0 None True (Cls [CSpace]), Eol], ignoreCase = False, multiline = True\<rparr>]"

text \<open>\<^verbatim>\<open>/[^\u4e00-\u9fa5a-zA-Z0-9\s\.,;:!?()[\]{}"'`~@#$%^&*+=|\\/<>-]/g\<close>\<close>

definition weirdChars :: jsregexp where
  "weirdChars =
     \<lparr>pattern = NCls [CRange 0x4E00 0x9FA5, CRange 0x61 0x7A, CRange 0x41 0x5A,
       CRange 0x30 0x39, CSpace, CChar 0x2E, CChar 0x2C, CChar 0x3B, CChar 0x3A, CChar 0x21,
       CChar 0x3F, CChar 0x28, CChar 0x29, CChar 0x5B, CChar 0x5D, CChar 0x7B, CChar 0x7D,
       CChar 0x22, CChar 0x27, CChar 0x60, CChar 0x7E, CChar 0x40, CChar 0x23, CChar 0x24,
       CChar 0x25, CChar 0x5E, CChar 0x26, CChar 0x2A, CChar 0x2B, CChar 0x3D, CChar 0x7C,
       CChar 0x5C, CChar 0x2F, CChar 0x3C, CChar 0x3E, CChar 0x2D], ignoreCase = False,
       multiline = False\<rparr>"

text \<open>
  \<^verbatim>\<open>cleanText\<close>. The two comparisons with a fraction are written without division:
  for lengths below \<open>2^53\<close> the double \<^verbatim>\<open>w / t > 0.2\<close> holds exactly when \<open>t < 5 * w\<close>, and
  \<^verbatim>\<open>c < t * 0.1\<close> exactly when \<open>10 * c < t\<close>.
\<close>

definition collapseWhitespace :: "jsstring \<Rightarrow> jsstring" where
  "collapseWhitespace s = trim (replaceAll blankLines [0xA] (replaceAll whitespaceRuns [0x20] s))"

definition removeAll :: "jsregexp list \<Rightarrow> jsstring \<Rightarrow> jsstring" where
  "removeAll patterns s = foldl (\<lambda>cleaned p. replaceAll p [] cleaned) s patterns"

definition removeBoilerplate :: "jsstring \<Rightarrow> jsstring" where
  "removeBoilerplate cleaned =
     collapseWhitespace
       (removeAll headerFooterPatterns (removeAll authorPatterns (removeAll publisherPatterns cleaned)))"

definition looksGarbled :: "jsstring \<Rightarrow> bool" where
  "looksGarbled cleaned =
     (let totalChars = length cleaned
      in 0 < totalChars \<and> totalChars < 5 * matchCount weirdChars cleaned)"

definition cleanText :: "jsstring \<Rightarrow> jsstring \<times> bool" where
  "cleanText text =
     (let cleaned = collapseWhitespace text
      in if length cleaned < 10 then (cleaned, True)
         else (let cleaned = removeBoilerplate cleaned;
                   needsReview = looksGarbled cleaned
               in if 10 * length cleaned < length text
                  then (trim (replaceAll whitespaceRuns [0x20] text), True)
                  else (cleaned, needsReview)))"

subsection \<open>Processing one document\<close>

record pdfData =
  pdf_text :: jsstring
  numpages :: nat

text \<open>What the collaborators deliver for the file at hand: the file's size when it can be
  read, the parsed PDF, the text splitter, and the configured chunk limit.\<close>

record collaborators =
  basename :: jsstring
  readFile :: "nat option"
  pdfParse :: "pdfData option"
  splitText :: "jsstring \<Rightarrow> jsstring list option"
  maxChunks :: int

text \<open>\<^verbatim>\<open>xs.slice(0, m)\<close>; a negative \<open>m\<close> counts from the end.\<close>

definition slice0 :: "'b list \<Rightarrow> int \<Rightarrow> 'b list" where
  "slice0 xs m = (if m < 0 then take (nat (int (length xs) + m)) xs else take (nat m) xs)"

text \<open>The loop over \<^verbatim>\<open>limitedChunks\<close>, from index \<open>i\<close> on.\<close>

fun processChunks ::
  "('a, 'w) transformers \<Rightarrow> modelConfig \<Rightarrow> bool \<Rightarrow> jsstring \<Rightarrow> 'w processor \<Rightarrow> nat
     \<Rightarrow> jsstring list \<Rightarrow> 'a list option chunk list \<times> 'w processor" where
  "processChunks lib cfg generateEmbeddings src st i [] = ([], st)"
| "processChunks lib cfg generateEmbeddings src st i (chunk # rest) =
     (let (emb, st1) =
            (if generateEmbeddings \<and> 0 < length (trim chunk)
             then (case generateEmbedding lib cfg st chunk of
                     (Inr v, st1) \<Rightarrow> (Some v, st1)
                   | (Inl e, st1) \<Rightarrow> (None, st1))
             else (None, st));
          processedChunk =
            \<lparr>content = chunk,
             metadata = [''chunkIndex'' \<mapsto> JNum (int i), ''source'' \<mapsto> JStr src],
             embedding = emb\<rparr>;
          (done, st2) = processChunks lib cfg generateEmbeddings src st1 (Suc i) rest
      in (processedChunk # done, st2))"

definition processPDF ::
  "('a, 'w) transformers \<Rightarrow> modelConfig \<Rightarrow> collaborators \<Rightarrow> 'w processor \<Rightarrow> bool
     \<Rightarrow> (error + 'a ProcessedDocument) \<times> 'w processor" where
  "processPDF lib cfg io st generateEmbeddings =
     (case readFile io of
        None \<Rightarrow> (Inl ReadError, st)
      | Some bytes \<Rightarrow>
          (case pdfParse io of
             None \<Rightarrow> (Inl ParseError, st)
           | Some pdf \<Rightarrow>
               (let (cleaned, review) = cleanText (pdf_text pdf)
                in case splitText io cleaned of
                     None \<Rightarrow> (Inl SplitError, st)
                   | Some textChunks \<Rightarrow>
                       (let limitedChunks = slice0 textChunks (maxChunks io);
                            (cs, st1) =
                              processChunks lib cfg generateEmbeddings (basename io) st 0 limitedChunks
                        in (Inr \<lparr>filename = basename io,
                                 totalPages = numpages pdf,
                                 totalChunks = length cs,
                                 chunks = cs,
                                 doc_meta = \<lparr>fileSize = bytes, needsReview = review,
                                              cleanedText = True\<rparr>,
                                 stats = \<lparr>originalTextLength = length (pdf_text pdf),
                                           cleanedTextLength = length cleaned,
                                           embeddingModel =
                                             (if generateEmbeddings then Some (name cfg) else None)\<rparr>\<rparr>,
                            st1)))))"

section \<open>The chunk optimizer (the RAG optimization script)\<close>

definition MIN_CHUNK_LENGTH :: nat where
  "MIN_CHUNK_LENGTH = 50"

definition MAX_CHUNK_LENGTH :: nat where
  "MAX_CHUNK_LENGTH = 8000"

definition SEPARATOR :: jsstring where
  "SEPARATOR = [0x20]"

record statistics =
  totalFiles :: nat
  processedFiles :: nat
  skippedFiles :: nat
  originalChunks :: nat
  optimizedChunks :: nat
  mergedChunks :: nat
  removedChunks :: nat

subsection \<open>\<^verbatim>\<open>splitLongContent\<close>\<close>

text \<open>\<^verbatim>\<open>/[\u3002\uff01\uff1f\uff1b\n]/\<close>\<close>

definition sentenceEnd :: jsregexp where
  "sentenceEnd =
     \<lparr>pattern = Cls [CChar 0x3002, CChar 0xFF01, CChar 0xFF1F, CChar 0xFF1B, CChar 0xA],
       ignoreCase = False, multiline = False\<rparr>"

text \<open>The sentence with the first of the four terminators that follows some occurrence
  of it in the content \<open>txt\<close>.\<close>

definition sentenceWithPunctuation :: "jsstring \<Rightarrow> jsstring \<Rightarrow> jsstring" where
  "sentenceWithPunctuation txt sentence =
     sentence @ (if js_includes txt (sentence @ [0x3002]) then [0x3002]
                 else if js_includes txt (sentence @ [0xFF01]) then [0xFF01]
                 else if js_includes txt (sentence @ [0xFF1F]) then [0xFF1F]
                 else if js_includes txt (sentence @ [0xFF1B]) then [0xFF1B]
                 else [])"

text \<open>One turn of the loop over the sentences; the state is \<^verbatim>\<open>parts\<close> and
  \<^verbatim>\<open>currentPart\<close>.\<close>

fun splitStep :: "jsstring \<Rightarrow> nat \<Rightarrow> jsstring list \<times> jsstring \<Rightarrow> jsstring \<Rightarrow> jsstring list \<times> jsstring" where
  "splitStep txt maxLength (parts, currentPart) sentence =
     (if length (trim sentence) = 0 then (parts, currentPart)
      else (let withPunctuation = sentenceWithPunctuation txt sentence
            in if length currentPart + length withPunctuation \<le> maxLength
               then (parts, currentPart @ withPunctuation)
               else ((if 0 < length (trim currentPart) then parts @ [trim currentPart] else parts),
                     withPunctuation)))"

definition splitLongContent :: "jsstring \<Rightarrow> nat \<Rightarrow> jsstring list" where
  "splitLongContent txt maxLength =
     (let sentences = splitRe sentenceEnd txt;
          (parts, currentPart) = foldl (splitStep txt maxLength) ([], []) sentences;
          parts = (if 0 < length (trim currentPart) then parts @ [trim currentPart] else parts)
      in if 0 < length parts then parts else [take maxLength txt])"

subsection \<open>\<^verbatim>\<open>optimizeChunks\<close>\<close>

text \<open>The loop's variables: \<^verbatim>\<open>optimized\<close>, \<^verbatim>\<open>currentChunk\<close> (\<open>None\<close> for
  \<^verbatim>\<open>null\<close>), \<^verbatim>\<open>mergedCount\<close>, and the script's global counters.\<close>

record 'e optimizer =
  optimized :: "'e chunk list"
  currentChunk :: "'e chunk option"
  mergedCount :: nat
  counters :: statistics

text \<open>\<^verbatim>\<open>{content, embedding, metadata: {...chunk.metadata, chunkIndex: n, merged: b}}\<close>\<close>

definition startChunk :: "'e chunk \<Rightarrow> nat \<Rightarrow> bool \<Rightarrow> 'e chunk" where
  "startChunk chunk n b =
     \<lparr>content = content chunk,
      metadata = (metadata chunk)(''chunkIndex'' \<mapsto> JNum (int n), ''merged'' \<mapsto> JBool b),
      embedding = embedding chunk\<rparr>"

text \<open>Pushing the parts of an oversized chunk; \<open>j\<close> counts the parts pushed so far.\<close>

fun pushParts :: "'e chunk \<Rightarrow> nat \<Rightarrow> nat \<Rightarrow> jsstring list \<Rightarrow> 'e chunk list \<Rightarrow> 'e chunk list" where
  "pushParts chunk totalParts j [] out = out"
| "pushParts chunk totalParts j (part # parts) out =
     pushParts chunk totalParts (Suc j) parts
       (out @ [\<lparr>content = part,
                 metadata = (metadata chunk)(''chunkIndex'' \<mapsto> JNum (int (length out)),
                                             ''split'' \<mapsto> JBool True,
                                             ''splitPart'' \<mapsto> JNum (int (Suc j)),
                                             ''totalParts'' \<mapsto> JNum (int totalParts)),
                 embedding = embedding chunk\<rparr>])"

text \<open>\<^verbatim>\<open>if (currentChunk) optimized.push(currentChunk)\<close>\<close>

definition flushed :: "'e optimizer \<Rightarrow> 'e chunk list" where
  "flushed st = (case currentChunk st of Some cur \<Rightarrow> optimized st @ [cur] | None \<Rightarrow> optimized st)"

definition optimizeStep :: "'e optimizer \<Rightarrow> 'e chunk \<Rightarrow> 'e optimizer" where
  "optimizeStep st chunk =
     (if content chunk = [] \<or> length (trim (content chunk)) = 0
      then st\<lparr>counters := (counters st)\<lparr>removedChunks := removedChunks (counters st) + 1\<rparr>\<rparr>
      else (let contentLength = length (trim (content chunk))
            in if contentLength < MIN_CHUNK_LENGTH then
                 (case currentChunk st of
                    Some cur \<Rightarrow>
                      (let combinedContent = content cur @ SEPARATOR @ content chunk
                       in if length combinedContent \<le> MAX_CHUNK_LENGTH
                          then st\<lparr>currentChunk := Some (cur\<lparr>content := combinedContent\<rparr>),
                                  mergedCount := mergedCount st + 1,
                                  counters := (counters st)\<lparr>mergedChunks := mergedChunks (counters st) + 1\<rparr>\<rparr>
                          else st\<lparr>optimized := optimized st @ [cur],
                                  currentChunk := Some (startChunk chunk (length (optimized st @ [cur])) False)\<rparr>)
                  | None \<Rightarrow> st\<lparr>currentChunk := Some (startChunk chunk (length (optimized st)) False)\<rparr>)
               else if contentLength \<le> MAX_CHUNK_LENGTH then
                 (let out = flushed st;
                      fresh = startChunk chunk (length out) (0 < mergedCount st)
                  in if 0 < mergedCount st
                     then st\<lparr>optimized := out,
                             currentChunk := Some (fresh\<lparr>metadata :=
                                (metadata fresh)(''mergedCount'' \<mapsto> JNum (int (mergedCount st)))\<rparr>),
                             mergedCount := 0\<rparr>
                     else st\<lparr>optimized := out, currentChunk := Some fresh\<rparr>)
               else
                 (let out = flushed st;
                      parts = splitLongContent (content chunk) MAX_CHUNK_LENGTH
                  in st\<lparr>optimized := pushParts chunk (length parts) 0 parts out,
                         currentChunk := None\<rparr>)))"

text \<open>After the loop: the last pending chunk is pushed, or, when it is short and something
  was pushed before, merged into the last pushed chunk if that fits.\<close>

definition optimizeFinish :: "'e optimizer \<Rightarrow> 'e chunk list \<times> statistics" where
  "optimizeFinish st =
     (case currentChunk st of
        None \<Rightarrow> (optimized st, counters st)
      | Some cur \<Rightarrow>
          if length (trim (content cur)) < MIN_CHUNK_LENGTH \<and> 0 < length (optimized st)
          then (let lastChunk = last (optimized st);
                    combinedContent = content lastChunk @ SEPARATOR @ content cur
                in if length combinedContent \<le> MAX_CHUNK_LENGTH
                   then (butlast (optimized st)
                           @ [lastChunk\<lparr>content := combinedContent,
                                        metadata := (metadata lastChunk)(''merged'' \<mapsto> JBool True)\<rparr>],
                         (counters st)\<lparr>mergedChunks := mergedChunks (counters st) + 1\<rparr>)
                   else (optimized st @ [cur], counters st))
          else (optimized st @ [cur], counters st))"

definition optimizeChunks :: "'e chunk list \<Rightarrow> statistics \<Rightarrow> 'e chunk list \<times> statistics" where
  "optimizeChunks cs st =
     (if cs = [] then ([], st)
      else optimizeFinish
             (foldl optimizeStep
                \<lparr>optimized = [], currentChunk = None, mergedCount = 0, counters = st\<rparr> cs))"

section \<open>The content filters\<close>

text \<open>What reading and parsing a chunk file gives: an exception, a document without
  \<^verbatim>\<open>chunks\<close>, or a document with its chunks.\<close>

datatype 'e file_data = Unreadable | NoChunks | Chunks "'e chunk list"

text \<open>The counts a filter returns; the smart and the enhanced filter add \<^verbatim>\<open>cleaned\<close>.\<close>

record counts =
  original :: nat
  filtered :: nat
  removed :: nat

record counts_cleaned = counts +
  cleaned :: nat

text \<open>\<^verbatim>\<open>filteredChunks.forEach((chunk, index) => { chunk.metadata.chunkIndex = index })\<close>\<close>

definition reindex :: "'e chunk list \<Rightarrow> 'e chunk list" where
  "reindex cs =
     map (\<lambda>(index, chunk). chunk\<lparr>metadata := (metadata chunk)(''chunkIndex'' \<mapsto> JNum (int index))\<rparr>)
       (enumerate 0 cs)"

text \<open>\<^verbatim>\<open>/\s/g\<close>\<close>

definition whitespaceChar :: jsregexp where
  "whitespaceChar =
     \<lparr>pattern = Cls [CSpace], ignoreCase = False, multiline = False\<rparr>"

subsection \<open>The first filter (\<^verbatim>\<open>scripts/content-filter.js\<close>)\<close>

text \<open>The patterns of \<^verbatim>\<open>FILTER_PATTERNS\<close> (copyright, platform, advertising, author, metadata, empty), flattened into \<^verbatim>\<open>ALL_PATTERNS\<close>, in the order of the source:
  \<^item> \<^verbatim>\<open>/\u672c\u516c\u4f17\u8d26\u53f7\u5206\u4eab\u7684\u8d44\u6e90\u7248\u6743\u5c5e\u4e8e\u539f\u51fa\u7248\u673a\u6784/\<close>
  \<^item> \<^verbatim>\<open>/\u672c\u8d44\u6e90\u4e3a\u7535\u5b50\u8f7d\u4f53\uff0c\u4f20\u64ad\u5206\u4eab\u4ec5.*\u9650\u4e8e\u5bb6\u5ead\u4f7f\u7528/\<close>
  \<^item> \<^verbatim>\<open>/\u4e0d\u5f97\u4ee5\u4efb\u4f55\u7406\u7531\u5728\u5546\u4e1a\u884c\u4e3a.*\u4e2d\u4f7f\u7528/\<close>
  \<^item> \<^verbatim>\<open>/\u82e5\u559c\u6b22\u6b64\u8d44\u6e90\uff0c\u5efa\u8bae\u8d2d\u4e70\u5b9e\u4f53\u4ea7\u54c1/\<close>
  \<^item> \<^verbatim>\<open>/\u7248\u6743\u6240\u6709.*\u7ffb\u5370\u5fc5\u7a76/\<close>
  \<^item> \<^verbatim>\<open>/\u672a\u7ecf\u8bb8\u53ef.*\u4e0d\u5f97\u8f6c\u8f7d/\<close>
  \<^item> \<^verbatim>\<open>/\u4fdd\u7559\u6240\u6709\u6743\u5229/\<close>
  \<^item> \<^verbatim>\<open>/\u8fd4\u56de\u641c\u72d0\uff0c\u67e5\u770b\u66f4\u591a/\<close>
  \<^item> \<^verbatim>\<open>/\u641c\u72d0\u53f7\u7cfb\u4fe1\u606f\u53d1\u5e03\u5e73\u53f0/\<close>
  \<^item> \<^verbatim>\<open>/\u641c\u72d0\u4ec5\u63d0\u4f9b\u4fe1\u606f\u5b58\u50a8\u7a7a\u95f4\u670d\u52a1/\<close>
  \<^item> \<^verbatim>\<open>/\u8be5\u6587\u89c2\u70b9\u4ec5\u4ee3\u8868\u4f5c\u8005\u672c\u4eba/\<close>
  \<^item> \<^verbatim>\<open>/\u5fae\u4fe1\u516c\u4f17\u53f7.*\u5173\u6ce8/\<close>
  \<^item> \<^verbatim>\<open>/\u626b\u7801\u5173\u6ce8.*\u516c\u4f17\u53f7/\<close>
  \<^item> \<^verbatim>\<open>/\u957f\u6309\u4e8c\u7ef4\u7801.*\u5173\u6ce8/\<close>
  \<^item> \<^verbatim>\<open>/\u9605\u8bfb.*\(\d+\)/\<close>
  \<^item> \<^verbatim>\<open>/\u70b9\u8d5e.*\(\d+\)/\<close>
  \<^item> \<^verbatim>\<open>/\u8f6c\u53d1.*\u5206\u4eab/\<close>
  \<^item> \<^verbatim>\<open>/\u66f4\u591a\u7cbe\u5f69\u5185\u5bb9/\<close>
  \<^item> \<^verbatim>\<open>/\u656c\u8bf7\u5173\u6ce8/\<close>
  \<^item> \<^verbatim>\<open>/\u6b22\u8fce\u8ba2\u9605/\<close>
  \<^item> \<^verbatim>\<open>/\u514d\u8d39\u4e0b\u8f7d/\<close>
  \<^item> \<^verbatim>\<open>/\u9650\u65f6\u4f18\u60e0/\<close>
  \<^item> \<^verbatim>\<open>/\u4f5c\u8005\uff1a.*\u7f16\u8f91\uff1a/\<close>
  \<^item> \<^verbatim>\<open>/\u8d23\u4efb\u7f16\u8f91\uff1a/\<close>
  \<^item> \<^verbatim>\<open>/\u5ba1\u6838\uff1a.*\u6821\u5bf9\uff1a/\<close>
  \<^item> \<^verbatim>\<open>/\u6765\u6e90\uff1a.*\u6574\u7406\uff1a/\<close>
  \<^item> \<^verbatim>\<open>/\u7f16\u8005\u6309/\<close>
  \<^item> \<^verbatim>\<open>/\u5c0f\u7f16\u63a8\u8350/\<close>
  \<^item> \<^verbatim>\<open>/^\d+\/\d+$/\<close>
  \<^item> \<^verbatim>\<open>/^\u7b2c.*\u9875$/\<close>
  \<^item> \<^verbatim>\<open>/^\u9875\u7801\uff1a\d+$/\<close>
  \<^item> \<^verbatim>\<open>/\u6587\u4ef6\u5927\u5c0f\uff1a.*MB/\<close>
  \<^item> \<^verbatim>\<open>/\u4e0b\u8f7d\u6b21\u6570\uff1a\d+/\<close>
  \<^item> \<^verbatim>\<open>/\u4e0a\u4f20\u65f6\u95f4\uff1a/\<close>
  \<^item> \<^verbatim>\<open>/^[\s\n\r]*$/\<close>
  \<^item> \<^verbatim>\<open>/^[\.\u3002\uff0c,\s]*$/\<close>
  \<^item> \<^verbatim>\<open>/^[\u3000\s]*$/\<close>
  \<^item> \<^verbatim>\<open>/^[\uff0d\u2014\-\s]*$/\<close>
\<close>

definition ALL_PATTERNS :: "jsregexp list" where
  "ALL_PATTERNS =
    [\<lparr>pattern = Str [0x672C, 0x516C, 0x4F17, 0x8D26, 0x53F7, 0x5206, 0x4EAB, 0x7684,
       0x8D44, 0x6E90, 0x7248, 0x6743, 0x5C5E, 0x4E8E, 0x539F, 0x51FA, 0x7248, 0x673A, 0x6784],
       ignoreCase = False, multiline = False\<rparr>,
     \<lparr>pattern = Cats [Str [0x672C, 0x8D44, 0x6E90, 0x4E3A, 0x7535, 0x5B50, 0x8F7D, 0x4F53,
       0xFF0C, 0x4F20, 0x64AD, 0x5206, 0x4EAB, 0x4EC5], Rep 0 None True Dot, Str [0x9650, 0x4E8E,
       0x5BB6, 0x5EAD, 0x4F7F, 0x7528]], ignoreCase = False, multiline = False\<rparr>,
     \<lparr>pattern = Cats [Str [0x4E0D, 0x5F97, 0x4EE5, 0x4EFB, 0x4F55, 0x7406, 0x7531, 0x5728,
       0x5546, 0x4E1A, 0x884C, 0x4E3A], Rep 0 None True Dot, Str [0x4E2D, 0x4F7F, 0x7528]],
       ignoreCase = False, multiline = False\<rparr>,
     \<lparr>pattern = Str [0x82E5, 0x559C, 0x6B22, 0x6B64, 0x8D44, 0x6E90, 0xFF0C, 0x5EFA,
       0x8BAE, 0x8D2D, 0x4E70, 0x5B9E, 0x4F53, 0x4EA7, 0x54C1], ignoreCase = False,
       multiline = False\<rparr>,
     \<lparr>pattern = Cats [Str [0x7248, 0x6743, 0x6240, 0x6709], Rep 0 None True Dot,
       Str [0x7FFB, 0x5370, 0x5FC5, 0x7A76]], ignoreCase = False, multiline = False\<rparr>,
     \<lparr>pattern = Cats [Str [0x672A, 0x7ECF, 0x8BB8, 0x53EF], Rep 0 None True Dot,
       Str [0x4E0D, 0x5F97, 0x8F6C, 0x8F7D]], ignoreCase = False, multiline = False\<rparr>,
     \<lparr>pattern = Str [0x4FDD, 0x7559, 0x6240, 0x6709, 0x6743, 0x5229], ignoreCase = False,
       multiline = False\<rparr>,
     \<lparr>pattern = Str [0x8FD4, 0x56DE, 0x641C, 0x72D0, 0xFF0C, 0x67E5, 0x770B, 0x66F4,
       0x591A], ignoreCase = False, multiline = False\<rparr>,
     \<lparr>pattern = Str [0x641C, 0x72D0, 0x53F7, 0x7CFB, 0x4FE1, 0x606F, 0x53D1, 0x5E03,
       0x5E73, 0x53F0], ignoreCase = False, multiline = False\<rparr>,
     \<lparr>pattern = Str [0x641C, 0x72D0, 0x4EC5, 0x63D0, 0x4F9B, 0x4FE1, 0x606F, 0x5B58,
       0x50A8, 0x7A7A, 0x95F4, 0x670D, 0x52A1], ignoreCase = False, multiline = False\<rparr>,
     \<lparr>pattern = Str [0x8BE5, 0x6587, 0x89C2, 0x70B9, 0x4EC5, 0x4EE3, 0x8868, 0x4F5C,
       0x8005, 0x672C, 0x4EBA], ignoreCase = False, multiline = False\<rparr>,
     \<lparr>pattern = Cats [Str [0x5FAE, 0x4FE1, 0x516C, 0x4F17, 0x53F7], Rep 0 None True Dot,
       Str [0x5173, 0x6CE8]], ignoreCase = False, multiline = False\<rparr>,
     \<lparr>pattern = Cats [Str [0x626B, 0x7801, 0x5173, 0x6CE8], Rep 0 None True Dot,
       Str [0x516C, 0x4F17, 0x53F7]], ignoreCase = False, multiline = False\<rparr>,
     \<lparr>pattern = Cats [Str [0x957F, 0x6309, 0x4E8C, 0x7EF4, 0x7801], Rep 0 None True Dot,
       Str [0x5173, 0x6CE8]], ignoreCase = False, multiline = False\<rparr>,
     \<lparr>pattern = Cats [Str [0x9605, 0x8BFB], Rep 0 None True Dot, Lit 0x28,
       Rep 1 None True (Cls [CDigit]), Lit 0x29], ignoreCase = False, multiline = False\<rparr>,
     \<lparr>pattern = Cats [Str [0x70B9, 0x8D5E], Rep 0 None True Dot, Lit 0x28,
       Rep 1 None True (Cls [CDigit]), Lit 0x29], ignoreCase = False, multiline = False\<rparr>,
     \<lparr>pattern = Cats [Str [0x8F6C, 0x53D1], Rep 0 None True Dot, Str [0x5206, 0x4EAB]],
       ignoreCase = False, multiline = False\<rparr>,
     \<lparr>pattern = Str [0x66F4, 0x591A, 0x7CBE, 0x5F69, 0x5185, 0x5BB9], ignoreCase = False,
       multiline = False\<rparr>,
     \<lparr>pattern = Str [0x656C, 0x8BF7, 0x5173, 0x6CE8], ignoreCase = False,
       multiline = False\<rparr>,
     \<lparr>pattern = Str [0x6B22, 0x8FCE, 0x8BA2, 0x9605], ignoreCase = False,
       multiline = False\<rparr>,
     \<lparr>pattern = Str [0x514D, 0x8D39, 0x4E0B, 0x8F7D], ignoreCase = False,
       multiline = False\<rparr>,
     \<lparr>pattern = Str [0x9650, 0x65F6, 0x4F18, 0x60E0], ignoreCase = False,
       multiline = False\<rparr>,
     \<lparr>pattern = Cats [Str [0x4F5C, 0x8005, 0xFF1A], Rep 0 None True Dot, Str [0x7F16,
       0x8F91, 0xFF1A]], ignoreCase = False, multiline = False\<rparr>,
     \<lparr>pattern = Str [0x8D23, 0x4EFB, 0x7F16, 0x8F91, 0xFF1A], ignoreCase = False,
       multiline = False\<rparr>,
     \<lparr>pattern = Cats [Str [0x5BA1, 0x6838, 0xFF1A], Rep 0 None True Dot, Str [0x6821,
       0x5BF9, 0xFF1A]], ignoreCase = False, multiline = False\<rparr>,
     \<lparr>pattern = Cats [Str [0x6765, 0x6E90, 0xFF1A], Rep 0 None True Dot, Str [0x6574,
       0x7406, 0xFF1A]], ignoreCase = False, multiline = False\<rparr>,
     \<lparr>pattern = Str [0x7F16, 0x8005, 0x6309], ignoreCase = False, multiline = False\<rparr>,
     \<lparr>pattern = Str [0x5C0F, 0x7F16, 0x63A8, 0x8350], ignoreCase = False,
       multiline = False\<rparr>,
     \<lparr>pattern = Cats [Bol, Rep 1 None True (Cls [CDigit]), Lit 0x2F,
       Rep 1 None True (Cls [CDigit]), Eol], ignoreCase = False, multiline = False\<rparr>,
     \<lparr>pattern = Cats [Bol, Lit 0x7B2C, Rep 0 None True Dot, Lit 0x9875, Eol],
       ignoreCase = False, multiline = False\<rparr>,
     \<lparr>pattern = Cats [Bol, Str [0x9875, 0x7801, 0xFF1A], Rep 1 None True (Cls [CDigit]),
       Eol], ignoreCase = False, multiline = False\<rparr>,
     \<lparr>pattern = Cats [Str [0x6587, 0x4EF6, 0x5927, 0x5C0F, 0xFF1A], Rep 0 None True Dot,
       Str [0x4D, 0x42]], ignoreCase = False, multiline = False\<rparr>,
     \<lparr>pattern = Cats [Str [0x4E0B, 0x8F7D, 0x6B21, 0x6570, 0xFF1A],
       Rep 1 None True (Cls [CDigit])], ignoreCase = False, multiline = False\<rparr>,
     \<lparr>pattern = Str [0x4E0A, 0x4F20, 0x65F6, 0x95F4, 0xFF1A], ignoreCase = False,
       multiline = False\<rparr>,
     \<lparr>pattern = Cats [Bol, Rep 0 None True (Cls [CSpace, CChar 0xA, CChar 0xD]), Eol],
       ignoreCase = False, multiline = False\<rparr>,
     \<lparr>pattern = Cats [Bol, Rep 0 None True (Cls [CChar 0x2E, CChar 0x3002, CChar 0xFF0C,
       CChar 0x2C, CSpace]), Eol], ignoreCase = False, multiline = False\<rparr>,
     \<lparr>pattern = Cats [Bol, Rep 0 None True (Cls [CChar 0x3000, CSpace]), Eol],
       ignoreCase = False, multiline = False\<rparr>,
     \<lparr>pattern = Cats [Bol, Rep 0 None True (Cls [CChar 0xFF0D, CChar 0x2014, CChar 0x2D,
       CSpace]), Eol], ignoreCase = False, multiline = False\<rparr>]"

text \<open>\<^verbatim>\<open>/[^\u4e00-\u9fa5\w\s]/g\<close>\<close>

definition specialChars :: jsregexp where
  "specialChars =
     \<lparr>pattern = NCls [CRange 0x4E00 0x9FA5, CWord, CSpace], ignoreCase = False,
       multiline = False\<rparr>"

text \<open>\<^verbatim>\<open>shouldFilterContent\<close>. The ratio test \<^verbatim>\<open>n / length > 0.5\<close> is written
  \<open>length < 2 * n\<close>.\<close>

definition shouldFilterContent :: "jsstring \<Rightarrow> bool" where
  "shouldFilterContent c =
     (if c = [] then True
      else (let trimmedContent = trim c
            in if length trimmedContent < 10 then True
               else if list_ex (\<lambda>p. regexp_test p trimmedContent) ALL_PATTERNS then True
               else if length trimmedContent < 2 * matchCount specialChars trimmedContent then True
               else (let uniqueChars = codePoints (replaceAll whitespaceChar [] trimmedContent)
                     in if setSize uniqueChars < 5 \<and> 20 < length trimmedContent then True
                        else False)))"

text \<open>\<^verbatim>\<open>removePatterns\<close>, in the order of the source:
  \<^item> \<^verbatim>\<open>/\u672c\u516c\u4f17\u8d26\u53f7\u5206\u4eab\u7684\u8d44\u6e90\u7248\u6743\u5c5e\u4e8e\u539f\u51fa\u7248\u673a\u6784[^\u3002]*\u3002/g\<close>
  \<^item> \<^verbatim>\<open>/\u8fd4\u56de\u641c\u72d0\uff0c\u67e5\u770b\u66f4\u591a[^\u3002]*\u3002?/g\<close>
  \<^item> \<^verbatim>\<open>/\u58f0\u660e\uff1a\u8be5\u6587\u89c2\u70b9\u4ec5\u4ee3\u8868\u4f5c\u8005\u672c\u4eba[^\u3002]*\u3002/g\<close>
  \<^item> \<^verbatim>\<open>/\u641c\u72d0\u53f7\u7cfb\u4fe1\u606f\u53d1\u5e03\u5e73\u53f0[^\u3002]*\u3002/g\<close>
  \<^item> \<^verbatim>\<open>/\u9605\u8bfb\s*\(\d+\)/g\<close>
  \<^item> \<^verbatim>\<open>/\u70b9\u8d5e\s*\(\d+\)/g\<close>
\<close>

definition removePatterns :: "jsregexp list" where
  "removePatterns =
    [\<lparr>pattern = Cats [Str [0x672C, 0x516C, 0x4F17, 0x8D26, 0x53F7, 0x5206, 0x4EAB, 0x7684,
       0x8D44, 0x6E90, 0x7248, 0x6743, 0x5C5E, 0x4E8E, 0x539F, 0x51FA, 0x7248, 0x673A, 0x6784],
       Rep 0 None True (NCls [CChar 0x3002]), Lit 0x3002], ignoreCase = False,
       multiline = False\<rparr>,
     \<lparr>pattern = Cats [Str [0x8FD4, 0x56DE, 0x641C, 0x72D0, 0xFF0C, 0x67E5, 0x770B, 0x66F4,
       0x591A], Rep 0 None True (NCls [CChar 0x3002]), Rep 0 (Some 1) True (Lit 0x3002)],
       ignoreCase = False, multiline = False\<rparr>,
     \<lparr>pattern = Cats [Str [0x58F0, 0x660E, 0xFF1A, 0x8BE5, 0x6587, 0x89C2, 0x70B9, 0x4EC5,
       0x4EE3, 0x8868, 0x4F5C, 0x8005, 0x672C, 0x4EBA], Rep 0 None True (NCls [CChar 0x3002]),
       Lit 0x3002], ignoreCase = False, multiline = False\<rparr>,
     \<lparr>pattern = Cats [Str [0x641C, 0x72D0, 0x53F7, 0x7CFB, 0x4FE1, 0x606F, 0x53D1, 0x5E03,
       0x5E73, 0x53F0], Rep 0 None True (NCls [CChar 0x3002]), Lit 0x3002], ignoreCase = False,
       multiline = False\<rparr>,
     \<lparr>pattern = Cats [Str [0x9605, 0x8BFB], Rep 0 None True (Cls [CSpace]), Lit 0x28,
       Rep 1 None True (Cls [CDigit]), Lit 0x29], ignoreCase = False, multiline = False\<rparr>,
     \<lparr>pattern = Cats [Str [0x70B9, 0x8D5E], Rep 0 None True (Cls [CSpace]), Lit 0x28,
       Rep 1 None True (Cls [CDigit]), Lit 0x29], ignoreCase = False, multiline = False\<rparr>]"

definition cleanContent :: "jsstring \<Rightarrow> jsstring" where
  "cleanContent c =
     (if c = [] then []
      else trim (replaceAll whitespaceRuns [0x20] (removeAll removePatterns c)))"

text \<open>One turn of the loop of \<^verbatim>\<open>filterFile\<close>; the state is \<^verbatim>\<open>filteredChunks\<close> and
  \<^verbatim>\<open>removedCount\<close>.\<close>

fun filterStep :: "'e chunk list \<times> nat \<Rightarrow> 'e chunk \<Rightarrow> 'e chunk list \<times> nat" where
  "filterStep (filteredChunks, removedCount) chunk =
     (if shouldFilterContent (content chunk) then (filteredChunks, removedCount + 1)
      else (let cleanedContent = cleanContent (content chunk)
            in if 20 \<le> length cleanedContent
               then (filteredChunks
                       @ [chunk\<lparr>content := cleanedContent,
                                 metadata := (metadata chunk)
                                   (''filtered'' \<mapsto> JBool True,
                                    ''originalLength'' \<mapsto> JNum (int (length (content chunk))),
                                    ''cleanedLength'' \<mapsto> JNum (int (length cleanedContent)))\<rparr>],
                     removedCount)
               else (filteredChunks, removedCount + 1)))"

text \<open>\<^verbatim>\<open>filterFile\<close> returns the counts and, when it gets that far, writes the
  re-indexed chunks back (\<open>writeOk\<close> says whether writing succeeds). Every exception
  ends in the \<^verbatim>\<open>catch\<close>, which returns zeros.\<close>

definition filterFile :: "'e file_data \<Rightarrow> bool \<Rightarrow> counts \<times> 'e chunk list option" where
  "filterFile data writeOk =
     (case data of
        Unreadable \<Rightarrow> (\<lparr>original = 0, filtered = 0, removed = 0\<rparr>, None)
      | NoChunks \<Rightarrow> (\<lparr>original = 0, filtered = 0, removed = 0\<rparr>, None)
      | Chunks cs \<Rightarrow>
          if cs = [] then (\<lparr>original = 0, filtered = 0, removed = 0\<rparr>, None)
          else (let (filteredChunks, removedCount) = foldl filterStep ([], 0) cs;
                    filteredChunks = reindex filteredChunks
                in if writeOk
                   then (\<lparr>original = length cs, filtered = length filteredChunks,
                          removed = removedCount\<rparr>,
                         Some filteredChunks)
                   else (\<lparr>original = 0, filtered = 0, removed = 0\<rparr>, None)))"

subsection \<open>The smart filter\<close>

text \<open>\<^verbatim>\<open>EXACT_FILTER_PATTERNS\<close>, in the order of the source:
  \<^item> \<^verbatim>\<open>/^\u672c\u516c\u4f17\u8d26\u53f7\u5206\u4eab\u7684\u8d44\u6e90\u7248\u6743\u5c5e\u4e8e\u539f\u51fa\u7248\u673a\u6784\uff0c\u672c\u8d44\u6e90\u4e3a\u7535\u5b50\u8f7d\u4f53\uff0c\u4f20\u64ad\u5206\u4eab\u4ec5.*?\u9650\u4e8e\u5bb6\u5ead\u4f7f\u7528.*?\u4e0d\u5f97\u4ee5\u4efb\u4f55\u7406\u7531\u5728\u5546\u4e1a\u884c\u4e3a.*?\u4e2d\u4f7f\u7528.*?\u82e5\u559c\u6b22\u6b64\u8d44\u6e90\uff0c\u5efa\u8bae\u8d2d\u4e70\u5b9e\u4f53\u4ea7\u54c1.*?$/\<close>
  \<^item> \<^verbatim>\<open>/^\u8fd4\u56de\u641c\u72d0\uff0c\u67e5\u770b\u66f4\u591a.*?\u58f0\u660e\uff1a\u8be5\u6587\u89c2\u70b9\u4ec5\u4ee3\u8868\u4f5c\u8005\u672c\u4eba\uff0c\u641c\u72d0\u53f7\u7cfb\u4fe1\u606f\u53d1\u5e03\u5e73\u53f0\uff0c\u641c\u72d0\u4ec5\u63d0\u4f9b\u4fe1\u606f\u5b58\u50a8\u7a7a\u95f4\u670d\u52a1.*?$/\<close>
  \<^item> \<^verbatim>\<open>/^\u9605\u8bfb\s*\(\d+\)$/\<close>
  \<^item> \<^verbatim>\<open>/^\u70b9\u8d5e\s*\(\d+\)$/\<close>
  \<^item> \<^verbatim>\<open>/^[\s\n\r\u3000]*$/\<close>
  \<^item> \<^verbatim>\<open>/^[\.\u3002\uff0c,\uff1b;\uff1a:\s]*$/\<close>
  \<^item> \<^verbatim>\<open>/^[\uff0d\u2014\-\s]*$/\<close>
\<close>

definition EXACT_FILTER_PATTERNS :: "jsregexp list" where
  "EXACT_FILTER_PATTERNS =
    [\<lparr>pattern = Cats [Bol, Str [0x672C, 0x516C, 0x4F17, 0x8D26, 0x53F7, 0x5206, 0x4EAB,
       0x7684, 0x8D44, 0x6E90, 0x7248, 0x6743, 0x5C5E, 0x4E8E, 0x539F, 0x51FA, 0x7248, 0x673A,
       0x6784, 0xFF0C, 0x672C, 0x8D44, 0x6E90, 0x4E3A, 0x7535, 0x5B50, 0x8F7D, 0x4F53, 0xFF0C,
       0x4F20, 0x64AD, 0x5206, 0x4EAB, 0x4EC5], Rep 0 None False Dot, Str [0x9650, 0x4E8E, 0x5BB6,
       0x5EAD, 0x4F7F, 0x7528], Rep 0 None False Dot, Str [0x4E0D, 0x5F97, 0x4EE5, 0x4EFB, 0x4F55,
       0x7406, 0x7531, 0x5728, 0x5546, 0x4E1A, 0x884C, 0x4E3A], Rep 0 None False Dot, Str [0x4E2D,
       0x4F7F, 0x7528], Rep 0 None False Dot, Str [0x82E5, 0x559C, 0x6B22, 0x6B64, 0x8D44, 0x6E90,
       0xFF0C, 0x5EFA, 0x8BAE, 0x8D2D, 0x4E70, 0x5B9E, 0x4F53, 0x4EA7, 0x54C1],
       Rep 0 None False Dot, Eol], ignoreCase = False, multiline = False\<rparr>,
     \<lparr>pattern = Cats [Bol, Str [0x8FD4, 0x56DE, 0x641C, 0x72D0, 0xFF0C, 0x67E5, 0x770B,
       0x66F4, 0x591A], Rep 0 None False Dot, Str [0x58F0, 0x660E, 0xFF1A, 0x8BE5, 0x6587, 0x89C2,
       0x70B9, 0x4EC5, 0x4EE3, 0x8868, 0x4F5C, 0x8005, 0x672C, 0x4EBA, 0xFF0C, 0x641C, 0x72D0,
       0x53F7, 0x7CFB, 0x4FE1, 0x606F, 0x53D1, 0x5E03, 0x5E73, 0x53F0, 0xFF0C, 0x641C, 0x72D0,
       0x4EC5, 0x63D0, 0x4F9B, 0x4FE1, 0x606F, 0x5B58, 0x50A8, 0x7A7A, 0x95F4, 0x670D, 0x52A1],
       Rep 0 None False Dot, Eol], ignoreCase = False, multiline = False\<rparr>,
     \<lparr>pattern = Cats [Bol, Str [0x9605, 0x8BFB], Rep 0 None True (Cls [CSpace]), Lit 0x28,
       Rep 1 None True (Cls [CDigit]), Lit 0x29, Eol], ignoreCase = False, multiline = False\<rparr>,
     \<lparr>pattern = Cats [Bol, Str [0x70B9, 0x8D5E], Rep 0 None True (Cls [CSpace]), Lit 0x28,
       Rep 1 None True (Cls [CDigit]), Lit 0x29, Eol], ignoreCase = False, multiline = False\<rparr>,
     \<lparr>pattern = Cats [Bol, Rep 0 None True (Cls [CSpace, CChar 0xA, CChar 0xD,
       CChar 0x3000]), Eol], ignoreCase = False, multiline = False\<rparr>,
     \<lparr>pattern = Cats [Bol, Rep 0 None True (Cls [CChar 0x2E, CChar 0x3002, CChar 0xFF0C,
       CChar 0x2C, CChar 0xFF1B, CChar 0x3B, CChar 0xFF1A, CChar 0x3A, CSpace]), Eol],
       ignoreCase = False, multiline = False\<rparr>,
     \<lparr>pattern = Cats [Bol, Rep 0 None True (Cls [CChar 0xFF0D, CChar 0x2014, CChar 0x2D,
       CSpace]), Eol], ignoreCase = False, multiline = False\<rparr>]"

text \<open>\<^verbatim>\<open>CONTENT_CLEANING_PATTERNS\<close>, in the order of the source:
  \<^item> \<^verbatim>\<open>/\u672c\u516c\u4f17\u8d26\u53f7\u5206\u4eab\u7684\u8d44\u6e90\u7248\u6743\u5c5e\u4e8e\u539f\u51fa\u7248\u673a\u6784\uff0c\u672c\u8d44\u6e90\u4e3a\u7535\u5b50\u8f7d\u4f53\uff0c\u4f20\u64ad\u5206\u4eab\u4ec5.*?\u9650\u4e8e\u5bb6\u5ead\u4f7f\u7528.*?\u4e0d\u5f97\u4ee5\u4efb\u4f55\u7406\u7531\u5728\u5546\u4e1a\u884c\u4e3a.*?\u4e2d\u4f7f\u7528.*?\u82e5\u559c\u6b22\u6b64\u8d44\u6e90\uff0c\u5efa\u8bae\u8d2d\u4e70\u5b9e\u4f53\u4ea7\u54c1\u3002?/g\<close>
  \<^item> \<^verbatim>\<open>/\u8fd4\u56de\u641c\u72d0\uff0c\u67e5\u770b\u66f4\u591a.*?\u58f0\u660e\uff1a\u8be5\u6587\u89c2\u70b9\u4ec5\u4ee3\u8868\u4f5c\u8005\u672c\u4eba\uff0c\u641c\u72d0\u53f7\u7cfb\u4fe1\u606f\u53d1\u5e03\u5e73\u53f0\uff0c\u641c\u72d0\u4ec5\u63d0\u4f9b\u4fe1\u606f\u5b58\u50a8\u7a7a\u95f4\u670d\u52a1\u3002?/g\<close>
  \<^item> \<^verbatim>\<open>/\u9605\u8bfb\s*\(\d+\)/g\<close>
  \<^item> \<^verbatim>\<open>/\u70b9\u8d5e\s*\(\d+\)/g\<close>
\<close>

definition CONTENT_CLEANING_PATTERNS :: "jsregexp list" where
  "CONTENT_CLEANING_PATTERNS =
    [\<lparr>pattern = Cats [Str [0x672C, 0x516C, 0x4F17, 0x8D26, 0x53F7, 0x5206, 0x4EAB, 0x7684,
       0x8D44, 0x6E90, 0x7248, 0x6743, 0x5C5E, 0x4E8E, 0x539F, 0x51FA, 0x7248, 0x673A, 0x6784,
       0xFF0C, 0x672C, 0x8D44, 0x6E90, 0x4E3A, 0x7535, 0x5B50, 0x8F7D, 0x4F53, 0xFF0C, 0x4F20,
       0x64AD, 0x5206, 0x4EAB, 0x4EC5], Rep 0 None False Dot, Str [0x9650, 0x4E8E, 0x5BB6, 0x5EAD,
       0x4F7F, 0x7528], Rep 0 None False Dot, Str [0x4E0D, 0x5F97, 0x4EE5, 0x4EFB, 0x4F55, 0x7406,
       0x7531, 0x5728, 0x5546, 0x4E1A, 0x884C, 0x4E3A], Rep 0 None False Dot, Str [0x4E2D, 0x4F7F,
       0x7528], Rep 0 None False Dot, Str [0x82E5, 0x559C, 0x6B22, 0x6B64, 0x8D44, 0x6E90, 0xFF0C,
       0x5EFA, 0x8BAE, 0x8D2D, 0x4E70, 0x5B9E, 0x4F53, 0x4EA7, 0x54C1],
       Rep 0 (Some 1) True (Lit 0x3002)], ignoreCase = False, multiline = False\<rparr>,
     \<lparr>pattern = Cats [Str [0x8FD4, 0x56DE, 0x641C, 0x72D0, 0xFF0C, 0x67E5, 0x770B, 0x66F4,
       0x591A], Rep 0 None False Dot, Str [0x58F0, 0x660E, 0xFF1A, 0x8BE5, 0x6587, 0x89C2, 0x70B9,
       0x4EC5, 0x4EE3, 0x8868, 0x4F5C, 0x8005, 0x672C, 0x4EBA, 0xFF0C, 0x641C, 0x72D0, 0x53F7,
       0x7CFB, 0x4FE1, 0x606F, 0x53D1, 0x5E03, 0x5E73, 0x53F0, 0xFF0C, 0x641C, 0x72D0, 0x4EC5,
       0x63D0, 0x4F9B, 0x4FE1, 0x606F, 0x5B58, 0x50A8, 0x7A7A, 0x95F4, 0x670D, 0x52A1],
       Rep 0 (Some 1) True (Lit 0x3002)], ignoreCase = False, multiline = False\<rparr>,
     \<lparr>pattern = Cats [Str [0x9605, 0x8BFB], Rep 0 None True (Cls [CSpace]), Lit 0x28,
       Rep 1 None True (Cls [CDigit]), Lit 0x29], ignoreCase = False, multiline = False\<rparr>,
     \<lparr>pattern = Cats [Str [0x70B9, 0x8D5E], Rep 0 None True (Cls [CSpace]), Lit 0x28,
       Rep 1 None True (Cls [CDigit]), Lit 0x29], ignoreCase = False, multiline = False\<rparr>]"

definition shouldFilterContent_smart :: "jsstring \<Rightarrow> bool" where
  "shouldFilterContent_smart c =
     (if c = [] then True
      else (let trimmedContent = trim c
            in if length trimmedContent < 5 then True
               else if list_ex (\<lambda>p. regexp_test p trimmedContent) EXACT_FILTER_PATTERNS then True
               else False))"

definition cleanContent_smart :: "jsstring \<Rightarrow> jsstring" where
  "cleanContent_smart c =
     (if c = [] then []
      else trim (replaceAll whitespaceRuns [0x20] (removeAll CONTENT_CLEANING_PATTERNS c)))"

text \<open>\<^verbatim>\<open>educationalKeywords\<close> of the smart filter: \<^verbatim>\<open>\u8bfe\u672c\<close>, \<^verbatim>\<open>\u6559\u6750\<close>, \<^verbatim>\<open>\u5b66\u4e60\<close>, \<^verbatim>\<open>\u7ec3\u4e60\<close>, \<^verbatim>\<open>\u4f5c\u4e1a\<close>, \<^verbatim>\<open>\u8003\u8bd5\<close>, \<^verbatim>\<open>\u9898\u76ee\<close>, \<^verbatim>\<open>\u7b54\u6848\<close>, \<^verbatim>\<open>\u6570\u5b66\<close>, \<^verbatim>\<open>\u8bed\u6587\<close>, \<^verbatim>\<open>\u82f1\u8bed\<close>, \<^verbatim>\<open>\u7269\u7406\<close>, \<^verbatim>\<open>\u5316\u5b66\<close>, \<^verbatim>\<open>\u751f\u7269\<close>, \<^verbatim>\<open>\u5386\u53f2\<close>, \<^verbatim>\<open>\u5730\u7406\<close>, \<^verbatim>\<open>\u653f\u6cbb\<close>, \<^verbatim>\<open>\u79d1\u5b66\<close>, \<^verbatim>\<open>\u97f3\u4e50\<close>, \<^verbatim>\<open>\u7f8e\u672f\<close>, \<^verbatim>\<open>\u4f53\u80b2\<close>, \<^verbatim>\<open>\u9053\u5fb7\<close>, \<^verbatim>\<open>\u6cd5\u6cbb\<close>, \<^verbatim>\<open>\u5e74\u7ea7\<close>, \<^verbatim>\<open>\u5355\u5143\<close>, \<^verbatim>\<open>\u7ae0\u8282\<close>, \<^verbatim>\<open>\u8bfe\u65f6\<close>, \<^verbatim>\<open>\u77e5\u8bc6\<close>, \<^verbatim>\<open>\u6280\u80fd\<close>, \<^verbatim>\<open>\u80fd\u529b\<close>, \<^verbatim>\<open>\u6559\u5b66\<close>, \<^verbatim>\<open>\u5b66\u751f\<close>, \<^verbatim>\<open>\u8001\u5e08\<close>, \<^verbatim>\<open>\u6559\u5e08\<close>, \<^verbatim>\<open>\u8bfe\u5802\<close>, \<^verbatim>\<open>\u6559\u80b2\<close>\<close>

definition educationalKeywords_smart :: "jsstring list" where
  "educationalKeywords_smart =
    [[0x8BFE, 0x672C],
     [0x6559, 0x6750],
     [0x5B66, 0x4E60],
     [0x7EC3, 0x4E60],
     [0x4F5C, 0x4E1A],
     [0x8003, 0x8BD5],
     [0x9898, 0x76EE],
     [0x7B54, 0x6848],
     [0x6570, 0x5B66],
     [0x8BED, 0x6587],
     [0x82F1, 0x8BED],
     [0x7269, 0x7406],
     [0x5316, 0x5B66],
     [0x751F, 0x7269],
     [0x5386, 0x53F2],
     [0x5730, 0x7406],
     [0x653F, 0x6CBB],
     [0x79D1, 0x5B66],
     [0x97F3, 0x4E50],
     [0x7F8E, 0x672F],
     [0x4F53, 0x80B2],
     [0x9053, 0x5FB7],
     [0x6CD5, 0x6CBB],
     [0x5E74, 0x7EA7],
     [0x5355, 0x5143],
     [0x7AE0, 0x8282],
     [0x8BFE, 0x65F6],
     [0x77E5, 0x8BC6],
     [0x6280, 0x80FD],
     [0x80FD, 0x529B],
     [0x6559, 0x5B66],
     [0x5B66, 0x751F],
     [0x8001, 0x5E08],
     [0x6559, 0x5E08],
     [0x8BFE, 0x5802],
     [0x6559, 0x80B2]]"

definition hasEducationalContent_smart :: "jsstring \<Rightarrow> bool" where
  "hasEducationalContent_smart c = list_ex (\<lambda>keyword. js_includes c keyword) educationalKeywords_smart"

text \<open>One turn of the loop; the state is \<^verbatim>\<open>filteredChunks\<close>, \<^verbatim>\<open>removedCount\<close> and
  \<^verbatim>\<open>cleanedCount\<close>.\<close>

fun filterStep_smart :: "'e chunk list \<times> nat \<times> nat \<Rightarrow> 'e chunk \<Rightarrow> 'e chunk list \<times> nat \<times> nat" where
  "filterStep_smart (filteredChunks, removedCount, cleanedCount) chunk =
     (if shouldFilterContent_smart (content chunk) then (filteredChunks, removedCount + 1, cleanedCount)
      else (let cleanedContent = cleanContent_smart (content chunk)
            in if length cleanedContent < 20 then
                 (if hasEducationalContent_smart (content chunk)
                  then (filteredChunks
                          @ [chunk\<lparr>metadata := (metadata chunk)
                                      (''contentPreserved'' \<mapsto> JBool True,
                                       ''reason'' \<mapsto> JStr (ascii ''Educational content detected''))\<rparr>],
                        removedCount, cleanedCount)
                  else (filteredChunks, removedCount + 1, cleanedCount))
               else (let wasContentCleaned = (cleanedContent \<noteq> content chunk)
                     in (filteredChunks
                           @ [chunk\<lparr>content := cleanedContent,
                                     metadata := (metadata chunk)
                                       (''contentCleaned'' \<mapsto> JBool wasContentCleaned,
                                        ''originalLength'' \<mapsto> JNum (int (length (content chunk))),
                                        ''cleanedLength'' \<mapsto> JNum (int (length cleanedContent)))\<rparr>],
                         removedCount,
                         (if wasContentCleaned then cleanedCount + 1 else cleanedCount)))))"

definition filterFile_smart :: "'e file_data \<Rightarrow> bool \<Rightarrow> counts_cleaned \<times> 'e chunk list option" where
  "filterFile_smart data writeOk =
     (case data of
        Unreadable \<Rightarrow> (\<lparr>original = 0, filtered = 0, removed = 0, cleaned = 0\<rparr>, None)
      | NoChunks \<Rightarrow> (\<lparr>original = 0, filtered = 0, removed = 0, cleaned = 0\<rparr>, None)
      | Chunks cs \<Rightarrow>
          if cs = [] then (\<lparr>original = 0, filtered = 0, removed = 0, cleaned = 0\<rparr>, None)
          else (let (filteredChunks, removedCount, cleanedCount) = foldl filterStep_smart ([], 0, 0) cs;
                    filteredChunks = reindex filteredChunks
                in if writeOk
                   then (\<lparr>original = length cs, filtered = length filteredChunks,
                          removed = removedCount, cleaned = cleanedCount\<rparr>,
                         Some filteredChunks)
                   else (\<lparr>original = 0, filtered = 0, removed = 0, cleaned = 0\<rparr>, None)))"

subsection \<open>The enhanced filter\<close>

text \<open>\<^verbatim>\<open>ENHANCED_FILTER_PATTERNS\<close>, in the order of the source:
  \<^item> \<^verbatim>\<open>/^\u672c\u516c\u4f17\u8d26\u53f7\u5206\u4eab\u7684\u8d44\u6e90\u7248\u6743\u5c5e\u4e8e\u539f\u51fa\u7248\u673a\u6784\uff0c\u672c\u8d44\u6e90\u4e3a\u7535\u5b50\u8f7d\u4f53\uff0c\u4f20\u64ad\u5206\u4eab\u4ec5.*?\u9650\u4e8e\u5bb6\u5ead\u4f7f\u7528.*?\u4e0d\u5f97\u4ee5\u4efb\u4f55\u7406\u7531\u5728\u5546\u4e1a\u884c\u4e3a.*?\u4e2d\u4f7f\u7528.*?\u82e5\u559c\u6b22\u6b64\u8d44\u6e90\uff0c\u5efa\u8bae\u8d2d\u4e70\u5b9e\u4f53\u4ea7\u54c1.*?$/\<close>
  \<^item> \<^verbatim>\<open>/^\u8fd4\u56de\u641c\u72d0\uff0c\u67e5\u770b\u66f4\u591a.*?\u58f0\u660e\uff1a\u8be5\u6587\u89c2\u70b9\u4ec5\u4ee3\u8868\u4f5c\u8005\u672c\u4eba\uff0c\u641c\u72d0\u53f7\u7cfb\u4fe1\u606f\u53d1\u5e03\u5e73\u53f0\uff0c\u641c\u72d0\u4ec5\u63d0\u4f9b\u4fe1\u606f\u5b58\u50a8\u7a7a\u95f4\u670d\u52a1.*?$/\<close>
  \<^item> \<^verbatim>\<open>/^\u9605\u8bfb\s*\(\d+\)$/\<close>
  \<^item> \<^verbatim>\<open>/^\u70b9\u8d5e\s*\(\d+\)$/\<close>
  \<^item> \<^verbatim>\<open>/^\u5173\u6ce8\u5fae\u4fe1\u516c\u4f17\u53f7.*?\u83b7\u53d6\u66f4\u591a\u5b66\u4e60\u8d44\u6599\uff01.*?\u5173\u6ce8\u5fae\u4fe1\u516c\u4f17\u53f7.*?\u83b7\u53d6\u66f4\u591a\u5b66\u4e60\u8d44\u6599\uff01/\<close>
  \<^item> \<^verbatim>\<open>/^\u4e0a\u6d77\u5e02\u6559\u80b2\u59d4\u5458\u4f1a\u7248\u6743\u6240\u6709.*?\u4e0a\u6d77\u5e02\u6559\u80b2\u59d4\u5458\u4f1a\u7248\u6743\u6240\u6709/\<close>
  \<^item> \<^verbatim>\<open>/^.*?\u7248\u6743\u6240\u6709.*?\u7248\u6743\u6240\u6709.*?\u7248\u6743\u6240\u6709/\<close>
  \<^item> \<^verbatim>\<open>/^[\s\n\r\u3000]*$/\<close>
  \<^item> \<^verbatim>\<open>/^[\.\u3002\uff0c,\uff1b;\uff1a:\s]*$/\<close>
  \<^item> \<^verbatim>\<open>/^[\uff0d\u2014\-\s]*$/\<close>
\<close>

definition ENHANCED_FILTER_PATTERNS :: "jsregexp list" where
  "ENHANCED_FILTER_PATTERNS =
    [\<lparr>pattern = Cats [Bol, Str [0x672C, 0x516C, 0x4F17, 0x8D26, 0x53F7, 0x5206, 0x4EAB,
       0x7684, 0x8D44, 0x6E90, 0x7248, 0x6743, 0x5C5E, 0x4E8E, 0x539F, 0x51FA, 0x7248, 0x673A,
       0x6784, 0xFF0C, 0x672C, 0x8D44, 0x6E90, 0x4E3A, 0x7535, 0x5B50, 0x8F7D, 0x4F53, 0xFF0C,
       0x4F20, 0x64AD, 0x5206, 0x4EAB, 0x4EC5], Rep 0 None False Dot, Str [0x9650, 0x4E8E, 0x5BB6,
       0x5EAD, 0x4F7F, 0x7528], Rep 0 None False Dot, Str [0x4E0D, 0x5F97, 0x4EE5, 0x4EFB, 0x4F55,
       0x7406, 0x7531, 0x5728, 0x5546, 0x4E1A, 0x884C, 0x4E3A], Rep 0 None False Dot, Str [0x4E2D,
       0x4F7F, 0x7528], Rep 0 None False Dot, Str [0x82E5, 0x559C, 0x6B22, 0x6B64, 0x8D44, 0x6E90,
       0xFF0C, 0x5EFA, 0x8BAE, 0x8D2D, 0x4E70, 0x5B9E, 0x4F53, 0x4EA7, 0x54C1],
       Rep 0 None False Dot, Eol], ignoreCase = False, multiline = False\<rparr>,
     \<lparr>pattern = Cats [Bol, Str [0x8FD4, 0x56DE, 0x641C, 0x72D0, 0xFF0C, 0x67E5, 0x770B,
       0x66F4, 0x591A], Rep 0 None False Dot, Str [0x58F0, 0x660E, 0xFF1A, 0x8BE5, 0x6587, 0x89C2,
       0x70B9, 0x4EC5, 0x4EE3, 0x8868, 0x4F5C, 0x8005, 0x672C, 0x4EBA, 0xFF0C, 0x641C, 0x72D0,
       0x53F7, 0x7CFB, 0x4FE1, 0x606F, 0x53D1, 0x5E03, 0x5E73, 0x53F0, 0xFF0C, 0x641C, 0x72D0,
       0x4EC5, 0x63D0, 0x4F9B, 0x4FE1, 0x606F, 0x5B58, 0x50A8, 0x7A7A, 0x95F4, 0x670D, 0x52A1],
       Rep 0 None False Dot, Eol], ignoreCase = False, multiline = False\<rparr>,
     \<lparr>pattern = Cats [Bol, Str [0x9605, 0x8BFB], Rep 0 None True (Cls [CSpace]), Lit 0x28,
       Rep 1 None True (Cls [CDigit]), Lit 0x29, Eol], ignoreCase = False, multiline = False\<rparr>,
     \<lparr>pattern = Cats [Bol, Str [0x70B9, 0x8D5E], Rep 0 None True (Cls [CSpace]), Lit 0x28,
       Rep 1 None True (Cls [CDigit]), Lit 0x29, Eol], ignoreCase = False, multiline = False\<rparr>,
     \<lparr>pattern = Cats [Bol, Str [0x5173, 0x6CE8, 0x5FAE, 0x4FE1, 0x516C, 0x4F17, 0x53F7],
       Rep 0 None False Dot, Str [0x83B7, 0x53D6, 0x66F4, 0x591A, 0x5B66, 0x4E60, 0x8D44, 0x6599,
       0xFF01], Rep 0 None False Dot, Str [0x5173, 0x6CE8, 0x5FAE, 0x4FE1, 0x516C, 0x4F17, 0x53F7],
       Rep 0 None False Dot, Str [0x83B7, 0x53D6, 0x66F4, 0x591A, 0x5B66, 0x4E60, 0x8D44, 0x6599,
       0xFF01]], ignoreCase = False, multiline = False\<rparr>,
     \<lparr>pattern = Cats [Bol, Str [0x4E0A, 0x6D77, 0x5E02, 0x6559, 0x80B2, 0x59D4, 0x5458,
       0x4F1A, 0x7248, 0x6743, 0x6240, 0x6709], Rep 0 None False Dot, Str [0x4E0A, 0x6D77, 0x5E02,
       0x6559, 0x80B2, 0x59D4, 0x5458, 0x4F1A, 0x7248, 0x6743, 0x6240, 0x6709]], ignoreCase = False,
       multiline = False\<rparr>,
     \<lparr>pattern = Cats [Bol, Rep 0 None False Dot, Str [0x7248, 0x6743, 0x6240, 0x6709],
       Rep 0 None False Dot, Str [0x7248, 0x6743, 0x6240, 0x6709], Rep 0 None False Dot,
       Str [0x7248, 0x6743, 0x6240, 0x6709]], ignoreCase = False, multiline = False\<rparr>,
     \<lparr>pattern = Cats [Bol, Rep 0 None True (Cls [CSpace, CChar 0xA, CChar 0xD,
       CChar 0x3000]), Eol], ignoreCase = False, multiline = False\<rparr>,
     \<lparr>pattern = Cats [Bol, Rep 0 None True (Cls [CChar 0x2E, CChar 0x3002, CChar 0xFF0C,
       CChar 0x2C, CChar 0xFF1B, CChar 0x3B, CChar 0xFF1A, CChar 0x3A, CSpace]), Eol],
       ignoreCase = False, multiline = False\<rparr>,
     \<lparr>pattern = Cats [Bol, Rep 0 None True (Cls [CChar 0xFF0D, CChar 0x2014, CChar 0x2D,
       CSpace]), Eol], ignoreCase = False, multiline = False\<rparr>]"

text \<open>\<^verbatim>\<open>ENHANCED_CLEANING_PATTERNS\<close>, in the order of the source:
  \<^item> \<^verbatim>\<open>/(\u5173\u6ce8\u5fae\u4fe1\u516c\u4f17\u53f7.*?\u83b7\u53d6\u66f4\u591a\u5b66\u4e60\u8d44\u6599\uff01\s*){2,}/g\<close>
  \<^item> \<^verbatim>\<open>/(\u4e0a\u6d77\u5e02\u6559\u80b2\u59d4\u5458\u4f1a\u7248\u6743\u6240\u6709\s*){2,}/g\<close>
  \<^item> \<^verbatim>\<open>/(.*?\u7248\u6743\u6240\u6709\s*){3,}/g\<close>
  \<^item> \<^verbatim>\<open>/\u672c\u516c\u4f17\u8d26\u53f7\u5206\u4eab\u7684\u8d44\u6e90\u7248\u6743\u5c5e\u4e8e\u539f\u51fa\u7248\u673a\u6784\uff0c\u672c\u8d44\u6e90\u4e3a\u7535\u5b50\u8f7d\u4f53\uff0c\u4f20\u64ad\u5206\u4eab\u4ec5.*?\u9650\u4e8e\u5bb6\u5ead\u4f7f\u7528.*?\u4e0d\u5f97\u4ee5\u4efb\u4f55\u7406\u7531\u5728\u5546\u4e1a\u884c\u4e3a.*?\u4e2d\u4f7f\u7528.*?\u82e5\u559c\u6b22\u6b64\u8d44\u6e90\uff0c\u5efa\u8bae\u8d2d\u4e70\u5b9e\u4f53\u4ea7\u54c1\u3002?/g\<close>
  \<^item> \<^verbatim>\<open>/\u8fd4\u56de\u641c\u72d0\uff0c\u67e5\u770b\u66f4\u591a.*?\u58f0\u660e\uff1a\u8be5\u6587\u89c2\u70b9\u4ec5\u4ee3\u8868\u4f5c\u8005\u672c\u4eba\uff0c\u641c\u72d0\u53f7\u7cfb\u4fe1\u606f\u53d1\u5e03\u5e73\u53f0\uff0c\u641c\u72d0\u4ec5\u63d0\u4f9b\u4fe1\u606f\u5b58\u50a8\u7a7a\u95f4\u670d\u52a1\u3002?/g\<close>
  \<^item> \<^verbatim>\<open>/\u9605\u8bfb\s*\(\d+\)/g\<close>
  \<^item> \<^verbatim>\<open>/\u70b9\u8d5e\s*\(\d+\)/g\<close>
\<close>

definition ENHANCED_CLEANING_PATTERNS :: "jsregexp list" where
  "ENHANCED_CLEANING_PATTERNS =
    [\<lparr>pattern = Rep 2 None True (Cats [Str [0x5173, 0x6CE8, 0x5FAE, 0x4FE1, 0x516C, 0x4F17,
       0x53F7], Rep 0 None False Dot, Str [0x83B7, 0x53D6, 0x66F4, 0x591A, 0x5B66, 0x4E60, 0x8D44,
       0x6599, 0xFF01], Rep 0 None True (Cls [CSpace])]), ignoreCase = False,
       multiline = False\<rparr>,
     \<lparr>pattern = Rep 2 None True (Cats [Str [0x4E0A, 0x6D77, 0x5E02, 0x6559, 0x80B2, 0x59D4,
       0x5458, 0x4F1A, 0x7248, 0x6743, 0x6240, 0x6709], Rep 0 None True (Cls [CSpace])]),
       ignoreCase = False, multiline = False\<rparr>,
     \<lparr>pattern = Rep 3 None True (Cats [Rep 0 None False Dot, Str [0x7248, 0x6743, 0x6240,
       0x6709], Rep 0 None True (Cls [CSpace])]), ignoreCase = False, multiline = False\<rparr>,
     \<lparr>pattern = Cats [Str [0x672C, 0x516C, 0x4F17, 0x8D26, 0x53F7, 0x5206, 0x4EAB, 0x7684,
       0x8D44, 0x6E90, 0x7248, 0x6743, 0x5C5E, 0x4E8E, 0x539F, 0x51FA, 0x7248, 0x673A, 0x6784,
       0xFF0C, 0x672C, 0x8D44, 0x6E90, 0x4E3A, 0x7535, 0x5B50, 0x8F7D, 0x4F53, 0xFF0C, 0x4F20,
       0x64AD, 0x5206, 0x4EAB, 0x4EC5], Rep 0 None False Dot, Str [0x9650, 0x4E8E, 0x5BB6, 0x5EAD,
       0x4F7F, 0x7528], Rep 0 None False Dot, Str [0x4E0D, 0x5F97, 0x4EE5, 0x4EFB, 0x4F55, 0x7406,
       0x7531, 0x5728, 0x5546, 0x4E1A, 0x884C, 0x4E3A], Rep 0 None False Dot, Str [0x4E2D, 0x4F7F,
       0x7528], Rep 0 None False Dot, Str [0x82E5, 0x559C, 0x6B22, 0x6B64, 0x8D44, 0x6E90, 0xFF0C,
       0x5EFA, 0x8BAE, 0x8D2D, 0x4E70, 0x5B9E, 0x4F53, 0x4EA7, 0x54C1],
       Rep 0 (Some 1) True (Lit 0x3002)], ignoreCase = False, multiline = False\<rparr>,
     \<lparr>pattern = Cats [Str [0x8FD4, 0x56DE, 0x641C, 0x72D0, 0xFF0C, 0x67E5, 0x770B, 0x66F4,
       0x591A], Rep 0 None False Dot, Str [0x58F0, 0x660E, 0xFF1A, 0x8BE5, 0x6587, 0x89C2, 0x70B9,
       0x4EC5, 0x4EE3, 0x8868, 0x4F5C, 0x8005, 0x672C, 0x4EBA, 0xFF0C, 0x641C, 0x72D0, 0x53F7,
       0x7CFB, 0x4FE1, 0x606F, 0x53D1, 0x5E03, 0x5E73, 0x53F0, 0xFF0C, 0x641C, 0x72D0, 0x4EC5,
       0x63D0, 0x4F9B, 0x4FE1, 0x606F, 0x5B58, 0x50A8, 0x7A7A, 0x95F4, 0x670D, 0x52A1],
       Rep 0 (Some 1) True (Lit 0x3002)], ignoreCase = False, multiline = False\<rparr>,
     \<lparr>pattern = Cats [Str [0x9605, 0x8BFB], Rep 0 None True (Cls [CSpace]), Lit 0x28,
       Rep 1 None True (Cls [CDigit]), Lit 0x29], ignoreCase = False, multiline = False\<rparr>,
     \<lparr>pattern = Cats [Str [0x70B9, 0x8D5E], Rep 0 None True (Cls [CSpace]), Lit 0x28,
       Rep 1 None True (Cls [CDigit]), Lit 0x29], ignoreCase = False, multiline = False\<rparr>]"

text \<open>\<^verbatim>\<open>phrases\<close>: \<^verbatim>\<open>\u5173\u6ce8\u5fae\u4fe1\u516c\u4f17\u53f7\<close>, \<^verbatim>\<open>\u83b7\u53d6\u66f4\u591a\u5b66\u4e60\u8d44\u6599\<close>, \<^verbatim>\<open>\u7248\u6743\u6240\u6709\<close>\<close>

definition phrases :: "jsstring list" where
  "phrases =
    [[0x5173, 0x6CE8, 0x5FAE, 0x4FE1, 0x516C, 0x4F17, 0x53F7],
     [0x83B7, 0x53D6, 0x66F4, 0x591A, 0x5B66, 0x4E60, 0x8D44, 0x6599],
     [0x7248, 0x6743, 0x6240, 0x6709]]"

text \<open>\<^verbatim>\<open>shouldFilterContent\<close> of the enhanced filter. \<^verbatim>\<open>new RegExp(phrase, 'g')\<close> is the
  phrase as a literal pattern; \<^verbatim>\<open>(matches * phrase.length) / contentLength > 0.5\<close> is
  written \<open>contentLength < 2 * (matches * length phrase)\<close>.\<close>

definition shouldFilterContent_enhanced :: "jsstring \<Rightarrow> bool" where
  "shouldFilterContent_enhanced c =
     (if c = [] then True
      else (let trimmedContent = trim c
            in if length trimmedContent < 10 then True
               else (let contentLength = length trimmedContent
                     in if list_ex
                             (\<lambda>phrase.
                                let matches = matchCount
                                      \<lparr>pattern = Str phrase, ignoreCase = False, multiline = False\<rparr>
                                      trimmedContent
                                in 3 < matches \<and> contentLength < 2 * (matches * length phrase))
                             phrases
                        then True
                        else if list_ex (\<lambda>p. regexp_test p trimmedContent) ENHANCED_FILTER_PATTERNS
                        then True
                        else False)))"

definition cleanContent_enhanced :: "jsstring \<Rightarrow> jsstring" where
  "cleanContent_enhanced c =
     (if c = [] then []
      else trim (replaceAll whitespaceRuns [0x20] (removeAll ENHANCED_CLEANING_PATTERNS c)))"

text \<open>\<^verbatim>\<open>educationalKeywords\<close> of the enhanced filter: \<^verbatim>\<open>\u8bfe\u672c\<close>, \<^verbatim>\<open>\u6559\u6750\<close>, \<^verbatim>\<open>\u5b66\u4e60\<close>, \<^verbatim>\<open>\u7ec3\u4e60\<close>, \<^verbatim>\<open>\u4f5c\u4e1a\<close>, \<^verbatim>\<open>\u8003\u8bd5\<close>, \<^verbatim>\<open>\u9898\u76ee\<close>, \<^verbatim>\<open>\u7b54\u6848\<close>, \<^verbatim>\<open>\u6570\u5b66\<close>, \<^verbatim>\<open>\u8bed\u6587\<close>, \<^verbatim>\<open>\u82f1\u8bed\<close>, \<^verbatim>\<open>\u7269\u7406\<close>, \<^verbatim>\<open>\u5316\u5b66\<close>, \<^verbatim>\<open>\u751f\u7269\<close>, \<^verbatim>\<open>\u5386\u53f2\<close>, \<^verbatim>\<open>\u5730\u7406\<close>, \<^verbatim>\<open>\u653f\u6cbb\<close>, \<^verbatim>\<open>\u79d1\u5b66\<close>, \<^verbatim>\<open>\u97f3\u4e50\<close>, \<^verbatim>\<open>\u7f8e\u672f\<close>, \<^verbatim>\<open>\u4f53\u80b2\<close>, \<^verbatim>\<open>\u9053\u5fb7\<close>, \<^verbatim>\<open>\u6cd5\u6cbb\<close>, \<^verbatim>\<open>\u5e74\u7ea7\<close>, \<^verbatim>\<open>\u5355\u5143\<close>, \<^verbatim>\<open>\u7ae0\u8282\<close>, \<^verbatim>\<open>\u8bfe\u65f6\<close>, \<^verbatim>\<open>\u77e5\u8bc6\<close>, \<^verbatim>\<open>\u6280\u80fd\<close>, \<^verbatim>\<open>\u80fd\u529b\<close>, \<^verbatim>\<open>\u6559\u5b66\<close>, \<^verbatim>\<open>\u5b66\u751f\<close>, \<^verbatim>\<open>\u8001\u5e08\<close>, \<^verbatim>\<open>\u6559\u5e08\<close>, \<^verbatim>\<open>\u8bfe\u5802\<close>, \<^verbatim>\<open>\u6559\u80b2\<close>, \<^verbatim>\<open>\u76ee\u5f55\<close>, \<^verbatim>\<open>\u7b2c\u4e00\u8bfe\<close>, \<^verbatim>\<open>\u7b2c\u4e8c\u8bfe\<close>, \<^verbatim>\<open>\u6c49\u8bed\u62fc\u97f3\<close>, \<^verbatim>\<open>\u8bc6\u5b57\<close>, \<^verbatim>\<open>\u8bfe\u6587\<close>\<close>

definition educationalKeywords_enhanced :: "jsstring list" where
  "educationalKeywords_enhanced =
    [[0x8BFE, 0x672C],
     [0x6559, 0x6750],
     [0x5B66, 0x4E60],
     [0x7EC3, 0x4E60],
     [0x4F5C, 0x4E1A],
     [0x8003, 0x8BD5],
     [0x9898, 0x76EE],
     [0x7B54, 0x6848],
     [0x6570, 0x5B66],
     [0x8BED, 0x6587],
     [0x82F1, 0x8BED],
     [0x7269, 0x7406],
     [0x5316, 0x5B66],
     [0x751F, 0x7269],
     [0x5386, 0x53F2],
     [0x5730, 0x7406],
     [0x653F, 0x6CBB],
     [0x79D1, 0x5B66],
     [0x97F3, 0x4E50],
     [0x7F8E, 0x672F],
     [0x4F53, 0x80B2],
     [0x9053, 0x5FB7],
     [0x6CD5, 0x6CBB],
     [0x5E74, 0x7EA7],
     [0x5355, 0x5143],
     [0x7AE0, 0x8282],
     [0x8BFE, 0x65F6],
     [0x77E5, 0x8BC6],
     [0x6280, 0x80FD],
     [0x80FD, 0x529B],
     [0x6559, 0x5B66],
     [0x5B66, 0x751F],
     [0x8001, 0x5E08],
     [0x6559, 0x5E08],
     [0x8BFE, 0x5802],
     [0x6559, 0x80B2],
     [0x76EE, 0x5F55],
     [0x7B2C, 0x4E00, 0x8BFE],
     [0x7B2C, 0x4E8C, 0x8BFE],
     [0x6C49, 0x8BED, 0x62FC, 0x97F3],
     [0x8BC6, 0x5B57],
     [0x8BFE, 0x6587]]"

definition hasEducationalContent_enhanced :: "jsstring \<Rightarrow> bool" where
  "hasEducationalContent_enhanced c =
     list_ex (\<lambda>keyword. js_includes c keyword) educationalKeywords_enhanced"

text \<open>\<^verbatim>\<open>assessContentQuality\<close>. With \<open>u\<close> distinct words among \<open>w\<close> words, the double
  \<^verbatim>\<open>1 - u / w\<close> exceeds \<^verbatim>\<open>0.8\<close> exactly when \<open>5 * u < w\<close>, and \<^verbatim>\<open>0.6\<close> exactly
  when \<open>5 * u < 2 * w\<close> (at \<open>5 * u = w\<close> the double difference is the double \<^verbatim>\<open>0.8\<close>
  itself, at \<open>5 * u = 2 * w\<close> the double \<^verbatim>\<open>0.6\<close>).\<close>

definition assessContentQuality :: "jsstring \<Rightarrow> nat" where
  "assessContentQuality c =
     (if c = [] then 0
      else (let trimmedContent = trim c
            in if length trimmedContent < 20 then 0
               else if hasEducationalContent_enhanced trimmedContent then 3
               else (let uniqueChars = codePoints (replaceAll whitespaceChar [] trimmedContent)
                     in if setSize uniqueChars < 5 then 0
                        else (let ws = splitRe whitespaceRuns trimmedContent;
                                  uniqueWords = setSize ws
                              in if 5 * uniqueWords < length ws then 0
                                 else if 5 * uniqueWords < 2 * length ws then 1
                                 else 2))))"

fun filterStep_enhanced :: "'e chunk list \<times> nat \<times> nat \<Rightarrow> 'e chunk \<Rightarrow> 'e chunk list \<times> nat \<times> nat" where
  "filterStep_enhanced (filteredChunks, removedCount, cleanedCount) chunk =
     (if shouldFilterContent_enhanced (content chunk) then (filteredChunks, removedCount + 1, cleanedCount)
      else (let cleanedContent = cleanContent_enhanced (content chunk);
                qualityScore = assessContentQuality cleanedContent
            in if qualityScore = 0 then (filteredChunks, removedCount + 1, cleanedCount)
               else (let wasContentCleaned = (cleanedContent \<noteq> content chunk)
                     in (filteredChunks
                           @ [chunk\<lparr>content := cleanedContent,
                                     metadata := (metadata chunk)
                                       (''contentCleaned'' \<mapsto> JBool wasContentCleaned,
                                        ''qualityScore'' \<mapsto> JNum (int qualityScore),
                                        ''originalLength'' \<mapsto> JNum (int (length (content chunk))),
                                        ''cleanedLength'' \<mapsto> JNum (int (length cleanedContent)))\<rparr>],
                         removedCount,
                         (if wasContentCleaned then cleanedCount + 1 else cleanedCount)))))"

definition filterFile_enhanced :: "'e file_data \<Rightarrow> bool \<Rightarrow> counts_cleaned \<times> 'e chunk list option" where
  "filterFile_enhanced data writeOk =
     (case data of
        Unreadable \<Rightarrow> (\<lparr>original = 0, filtered = 0, removed = 0, cleaned = 0\<rparr>, None)
      | NoChunks \<Rightarrow> (\<lparr>original = 0, filtered = 0, removed = 0, cleaned = 0\<rparr>, None)
      | Chunks cs \<Rightarrow>
          if cs = [] then (\<lparr>original = 0, filtered = 0, removed = 0, cleaned = 0\<rparr>, None)
          else (let (filteredChunks, removedCount, cleanedCount) = foldl filterStep_enhanced ([], 0, 0) cs;
                    filteredChunks = reindex filteredChunks
                in if writeOk
                   then (\<lparr>original = length cs, filtered = length filteredChunks,
                          removed = removedCount, cleaned = cleanedCount\<rparr>,
                         Some filteredChunks)
                   else (\<lparr>original = 0, filtered = 0, removed = 0, cleaned = 0\<rparr>, None)))"

section \<open>Concrete inputs\<close>

text \<open>A pipeline that throws on the text \<^verbatim>\<open>bad\<close> and otherwise returns the
  three-component tensor \<open>[1, 2, 3]\<close>; a document that the splitter cuts into five
  chunks, the second of them \<^verbatim>\<open>bad\<close>; a processor that has not loaded its model.\<close>

definition demoLibrary :: "(int, unit) transformers" where
  "demoLibrary =
     \<lparr>loadPipeline = (\<lambda>model w. (True, w)),
      callPipeline = (\<lambda>w t. (if t = ascii ''bad'' then None else Some (WithData [1, 2, 3]), w))\<rparr>"

definition demoCollaborators :: collaborators where
  "demoCollaborators =
     \<lparr>basename = ascii ''a.pdf'', readFile = Some 1000,
      pdfParse = Some \<lparr>pdf_text = ascii ''one bad three four five'', numpages = 1\<rparr>,
      splitText = (\<lambda>t. Some [ascii ''one'', ascii ''bad'', ascii ''three'', ascii ''four'', ascii ''five'']),
      maxChunks = 500\<rparr>"

definition freshProcessor :: "unit processor" where
  "freshProcessor = \<lparr>embeddingPipeline = False, world = ()\<rparr>"

text \<open>Chunks for the optimizer: a letter repeated \<open>n\<close> times, no embedding, no
  metadata; and counters that start at zero.\<close>

definition letters :: "nat \<Rightarrow> unit chunk" where
  "letters n = \<lparr>content = replicate n 0x61, metadata = Map.empty, embedding = ()\<rparr>"

definition noStatistics :: statistics where
  "noStatistics =
     \<lparr>totalFiles = 0, processedFiles = 0, skippedFiles = 0, originalChunks = 0,
      optimizedChunks = 0, mergedChunks = 0, removedChunks = 0\<rparr>"

text \<open>Chunks for the filters: \<^verbatim>\<open>\u5b66\u4e60\<close> ("study") ten times, 20 code units
  with two distinct characters and an educational keyword; and a letter repeated.\<close>

definition studyChunk :: "unit chunk" where
  "studyChunk =
     \<lparr>content = concat (replicate 10 [0x5B66, 0x4E60]), metadata = Map.empty, embedding = ()\<rparr>"

section \<open>Notions used in the statements\<close>

text \<open>A chunk is short when its content is below the minimum length. A sequence is
  \<open>spaced\<close> when no short chunk is directly followed by another short chunk.\<close>

definition short :: "'e chunk \<Rightarrow> bool" where
  "short c = (length (content c) < MIN_CHUNK_LENGTH)"

fun spaced :: "'e chunk list \<Rightarrow> bool" where
  "spaced (x # y # rest) = (\<not> (short x \<and> short y) \<and> spaced (y # rest))"
| "spaced xs = True"

text \<open>The contents of the chunks \<open>xs\<close> appended to \<open>start\<close>, each behind a separator.\<close>

definition joined :: "jsstring \<Rightarrow> 'e chunk list \<Rightarrow> jsstring" where
  "joined start xs = foldl (\<lambda>acc x. acc @ SEPARATOR @ content x) start xs"

text \<open>The invariant of the loop for inputs that are trimmed and need no splitting.\<close>

definition steady :: "'e optimizer \<Rightarrow> bool" where
  "steady st =
     (spaced (optimized st)
      \<and> (\<forall>c \<in> set (flushed st). length (content c) \<le> MAX_CHUNK_LENGTH)
      \<and> (currentChunk st = None \<longrightarrow> optimized st = [])
      \<and> (optimized st \<noteq> [] \<and> short (last (optimized st))
            \<longrightarrow> (\<exists>cur. currentChunk st = Some cur \<and> \<not> short cur)))"

section \<open>Facts about the string and pattern operations\<close>

lemma length_trim_le: "length (trim s) \<le> length s"
proof -
  have "length (trim s) \<le> length (dropWhile isWhiteSpace s)"
    unfolding trim_def using length_dropWhile_le [of isWhiteSpace "rev (dropWhile isWhiteSpace s)"] by simp
  also have "\<dots> \<le> length s" by (rule length_dropWhile_le)
  finally show ?thesis .
qed

lemma rep_match_bounds:
  "(\<forall>j e. j \<le> n \<longrightarrow> e \<in> set (step j) \<longrightarrow> j \<le> e \<and> e \<le> n) \<Longrightarrow> i \<le> n
     \<Longrightarrow> e \<in> set (rep_match step n mn mx greedy i) \<Longrightarrow> i \<le> e \<and> e \<le> n"
proof (induction step n mn mx greedy i arbitrary: e rule: rep_match.induct)
  case (1 step n mn mx greedy i)
  show ?case
  proof (cases "mx = Some 0")
    case True
    with "1.prems"(2,3) show ?thesis by (subst (asm) rep_match.simps) simp
  next
    case nz: False
    show ?thesis
    proof (cases "0 < mn")
      case True
      from True nz "1.prems"(3) obtain k where k: "k \<in> set (step i)"
        and e: "e \<in> set (rep_match step n (mn - 1) (dec_max mx) greedy k)"
        by (subst (asm) rep_match.simps) auto
      from k "1.prems"(1,2) have kb: "i \<le> k \<and> k \<le> n" by blast
      from "1.IH"(1) [OF nz True k "1.prems"(1) _ e] kb show ?thesis by auto
    next
      case False
      from False nz "1.prems"(3)
      have "e = i \<or> (\<exists>k. k \<in> set (step i) \<and> i < k \<and> k \<le> n
                \<and> e \<in> set (rep_match step n 0 (dec_max mx) greedy k))"
        by (subst (asm) rep_match.simps) (auto simp: Let_def split: if_splits)
      then show ?thesis
      proof
        assume "e = i" with "1.prems"(2) show ?thesis by simp
      next
        assume "\<exists>k. k \<in> set (step i) \<and> i < k \<and> k \<le> n
                \<and> e \<in> set (rep_match step n 0 (dec_max mx) greedy k)"
        then obtain k where k: "k \<in> set (step i)" "i < k" "k \<le> n"
          and e: "e \<in> set (rep_match step n 0 (dec_max mx) greedy k)" by blast
        from k have "k \<in> set (filter (\<lambda>j. i < j \<and> j \<le> n) (step i))" by simp
        from "1.IH"(2) [OF nz False this "1.prems"(1) k(3) e] k show ?thesis by auto
      qed
    qed
  qed
qed

lemma rx_match_bounds:
  "i \<le> length s \<Longrightarrow> e \<in> set (rx_match ic ml r s i) \<Longrightarrow> i \<le> e \<and> e \<le> length s"
proof (induction r arbitrary: i e)
  case (Cat a b)
  from Cat.prems(2) obtain k where k: "k \<in> set (rx_match ic ml a s i)"
    and e: "e \<in> set (rx_match ic ml b s k)" by auto
  from Cat.IH(1) [OF Cat.prems(1) k] have kb: "i \<le> k \<and> k \<le> length s" .
  with Cat.IH(2) [OF _ e] show ?case by auto
next
  case (Rep mn mx greedy r)
  have "\<forall>j e. j \<le> length s \<longrightarrow> e \<in> set (rx_match ic ml r s j) \<longrightarrow> j \<le> e \<and> e \<le> length s"
    using Rep.IH by blast
  from rep_match_bounds [OF this Rep.prems(1)] Rep.prems(2) show ?case by simp
qed (auto split: if_splits)

lemma matchAt_bounds:
  "i \<le> length s \<Longrightarrow> e \<in> set (matchAt re s i) \<Longrightarrow> i \<le> e \<and> e \<le> length s"
  unfolding matchAt_def by (rule rx_match_bounds)

text \<open>What a global replacement leaves in the result: the replacement, and input code
  units at indices where no non-empty match starts.\<close>

lemma replace_from_all:
  "(\<forall>c \<in> set rep. P c)
   \<Longrightarrow> (\<forall>j < length s. (m j = [] \<or> \<not> (j < hd (m j) \<and> hd (m j) \<le> length s)) \<longrightarrow> P (s ! j))
   \<Longrightarrow> c \<in> set (replace_from m rep s i) \<Longrightarrow> P c"
proof (induction m rep s i rule: replace_from.induct)
  case (1 m rep s i)
  note rep = "1.prems"(1) and keep = "1.prems"(2) and c = "1.prems"(3)
  show ?case
  proof (cases "length s < i")
    case True
    with c show ?thesis by (subst (asm) replace_from.simps) simp
  next
    case in_range: False
    show ?thesis
    proof (cases "m i")
      case Nil
      show ?thesis
      proof (cases "i < length s")
        case True
        with Nil in_range c have "c = s ! i \<or> c \<in> set (replace_from m rep s (Suc i))"
          by (subst (asm) replace_from.simps) auto
        then show ?thesis
          using keep True Nil "1.IH"(1) [OF in_range Nil True rep keep] by auto
      next
        case False
        with Nil in_range c show ?thesis by (subst (asm) replace_from.simps) simp
      qed
    next
      case (Cons e es)
      show ?thesis
      proof (cases "i < e \<and> e \<le> length s")
        case True
        with Cons in_range c have "c \<in> set rep \<or> c \<in> set (replace_from m rep s e)"
          by (subst (asm) replace_from.simps) auto
        then show ?thesis
          using rep "1.IH"(2) [OF in_range Cons True rep keep] by auto
      next
        case empty: False
        show ?thesis
        proof (cases "i < length s")
          case True
          with Cons in_range empty c
          have "c \<in> set rep \<or> c = s ! i \<or> c \<in> set (replace_from m rep s (Suc i))"
            by (subst (asm) replace_from.simps) auto
          moreover from keep True Cons empty have "P (s ! i)" by auto
          ultimately show ?thesis
            using rep "1.IH"(3) [OF in_range Cons empty True rep keep] by auto
        next
          case False
          with Cons in_range empty c have "c \<in> set rep"
            by (subst (asm) replace_from.simps) (auto split: if_splits)
          with rep show ?thesis by auto
        qed
      qed
    qed
  qed
qed

lemma replace_from_nil: "i \<le> length s \<Longrightarrow> replace_from (\<lambda>j. []) rep s i = drop i s"
proof (induction "length s - i" arbitrary: i)
  case 0
  then show ?case by (subst replace_from.simps) simp
next
  case (Suc k)
  then have lt: "i < length s" by simp
  from Suc have "replace_from (\<lambda>j. []) rep s (Suc i) = drop (Suc i) s" by simp
  with lt show ?case
    by (subst replace_from.simps) (simp add: Cons_nth_drop_Suc)
qed

lemma replace_from_no_match:
  assumes "\<And>j. m j = []"
  shows "replace_from m rep s 0 = s"
proof -
  from assms have "m = (\<lambda>j. [])" by (simp add: fun_eq_iff)
  then show ?thesis using replace_from_nil [of 0 s rep] by simp
qed

section \<open>Facts about the PDF processor\<close>

lemma plus_class_match:
  assumes j: "j < length s" and hit: "list_ex (\<lambda>it. citem_match ic it (s ! j)) items"
  shows "rx_match ic ml (Rep 1 None True (Cls items)) s j \<noteq> []
         \<and> (\<forall>e \<in> set (rx_match ic ml (Rep 1 None True (Cls items)) s j). j < e \<and> e \<le> length s)"
proof -
  let ?step = "rx_match ic ml (Cls items) s"
  have step: "?step j = [Suc j]" using j hit by simp
  have unfold1: "rx_match ic ml (Rep 1 None True (Cls items)) s j
                 = rep_match ?step (length s) 0 None True (Suc j)"
    using j hit by (simp, subst rep_match.simps [of _ _ "Suc 0"], simp)
  have nonempty: "rep_match ?step (length s) 0 None True (Suc j) \<noteq> []"
    by (subst rep_match.simps) (simp add: Let_def)
  have sb: "\<forall>k e. k \<le> length s \<longrightarrow> e \<in> set (?step k) \<longrightarrow> k \<le> e \<and> e \<le> length s"
    using rx_match_bounds by blast
  have "Suc j \<le> e \<and> e \<le> length s"
    if e: "e \<in> set (rep_match ?step (length s) 0 None True (Suc j))" for e
  proof -
    from j have "Suc j \<le> length s" by simp
    from rep_match_bounds [OF sb this e] show ?thesis .
  qed
  then have "\<forall>e \<in> set (rep_match ?step (length s) 0 None True (Suc j)). j < e \<and> e \<le> length s"
    by (meson Suc_le_lessD)
  with nonempty show ?thesis unfolding unfold1 by blast
qed

lemma whitespaceRuns_result:
  assumes "c \<in> set (replaceAll whitespaceRuns [0x20] s)"
  shows "c = 0x20 \<or> \<not> isWhiteSpace c"
proof -
  let ?m = "matchAt whitespaceRuns s"
  have keep: "\<forall>j < length s. (?m j = [] \<or> \<not> (j < hd (?m j) \<and> hd (?m j) \<le> length s))
                \<longrightarrow> (s ! j = 0x20 \<or> \<not> isWhiteSpace (s ! j))"
  proof (intro allI impI)
    fix j assume j: "j < length s"
      and none: "?m j = [] \<or> \<not> (j < hd (?m j) \<and> hd (?m j) \<le> length s)"
    show "s ! j = 0x20 \<or> \<not> isWhiteSpace (s ! j)"
    proof (rule ccontr)
      assume "\<not> (s ! j = 0x20 \<or> \<not> isWhiteSpace (s ! j))"
      then have "list_ex (\<lambda>it. citem_match False it (s ! j)) [CSpace]" by simp
      from plus_class_match [OF j this, of False]
      have "?m j \<noteq> [] \<and> (\<forall>e \<in> set (?m j). j < e \<and> e \<le> length s)"
        by (simp add: matchAt_def whitespaceRuns_def)
      then have "?m j \<noteq> [] \<and> j < hd (?m j) \<and> hd (?m j) \<le> length s"
        using hd_in_set by blast
      with none show False by blast
    qed
  qed
  have "\<forall>c \<in> set [0x20::int]. c = 0x20 \<or> \<not> isWhiteSpace c" by simp
  from replace_from_all [where P = "\<lambda>c. c = 0x20 \<or> \<not> isWhiteSpace c", OF this keep] assms
  show ?thesis by (simp add: replaceAll_def)
qed

lemma blankLines_no_newline:
  assumes "0xA \<notin> set s"
  shows "replaceAll blankLines rep s = s"
proof -
  have "matchAt blankLines s j = []" for j
    using assms by (auto simp: matchAt_def blankLines_def Cats_def dest: nth_mem)
  then show ?thesis unfolding replaceAll_def by (rule replace_from_no_match)
qed

lemma collapseWhitespace_eq:
  "collapseWhitespace s = trim (replaceAll whitespaceRuns [0x20] s)"
proof -
  have "0xA \<notin> set (replaceAll whitespaceRuns [0x20] s)"
    using whitespaceRuns_result [of "0xA" s] by (auto simp: isWhiteSpace_def)
  then show ?thesis by (simp add: collapseWhitespace_def blankLines_no_newline)
qed

lemma processChunks_contents:
  "map content (fst (processChunks lib cfg gen src st i cs)) = cs"
  by (induction cs arbitrary: st i) (simp_all add: Let_def case_prod_unfold)

lemma processChunks_length:
  "length (fst (processChunks lib cfg gen src st i cs)) = length cs"
  using processChunks_contents [of lib cfg gen src st i cs] by (metis length_map)

lemma processChunks_append:
  "processChunks lib cfg gen src st i (xs @ ys) =
     (case processChunks lib cfg gen src st i xs of
        (a, st1) \<Rightarrow> (case processChunks lib cfg gen src st1 (i + length xs) ys of
                       (b, st2) \<Rightarrow> (a @ b, st2)))"
  by (induction xs arbitrary: st i) (simp_all add: Let_def case_prod_unfold)

lemma generateEmbedding_result:
  assumes "generateEmbedding lib cfg st txt = (Inr v, st')"
  shows "\<exists>w w' result.
           callPipeline lib w (if instruction cfg \<noteq> [] then instruction cfg @ txt else txt)
             = (Some result, w')
           \<and> (result = WithData v \<or> (\<exists>rest. result = ArrayOfArrays v rest) \<or> result = FlatArray v)"
  using assms unfolding generateEmbedding_def Let_def
  by (auto split: prod.splits sum.splits option.splits pipeline_result.splits if_splits)

lemma processChunks_embedding:
  "c \<in> set (fst (processChunks lib cfg gen src st i cs)) \<Longrightarrow> embedding c = Some v
   \<Longrightarrow> \<exists>st1 st2. generateEmbedding lib cfg st1 (content c) = (Inr v, st2)"
proof (induction cs arbitrary: st i)
  case Nil
  then show ?case by simp
next
  case (Cons x xs)
  from Cons.prems(1) have "c = hd (fst (processChunks lib cfg gen src st i (x # xs)))
      \<or> (\<exists>st1 j. c \<in> set (fst (processChunks lib cfg gen src st1 j xs)))"
    by (auto simp: Let_def case_prod_unfold)
  then show ?case
  proof
    assume "c = hd (fst (processChunks lib cfg gen src st i (x # xs)))"
    with Cons.prems(2) show ?thesis
      by (auto simp: Let_def case_prod_unfold split: if_splits sum.splits) (metis prod.collapse)
  next
    assume "\<exists>st1 j. c \<in> set (fst (processChunks lib cfg gen src st1 j xs))"
    with Cons.IH Cons.prems(2) show ?thesis by blast
  qed
qed

lemma processPDF_success:
  assumes "readFile io = Some bytes" "pdfParse io = Some pdf"
    and "splitText io (fst (cleanText (pdf_text pdf))) = Some textChunks"
  shows "\<exists>doc. fst (processPDF lib cfg io st gen) = Inr doc
           \<and> totalChunks doc = length (slice0 textChunks (maxChunks io))
           \<and> chunks doc = fst (processChunks lib cfg gen (basename io) st 0 (slice0 textChunks (maxChunks io)))"
  using assms by (simp add: processPDF_def Let_def case_prod_unfold processChunks_length)

lemma processPDF_chunks:
  assumes "processPDF lib cfg io st gen = (Inr doc, st')"
  shows "\<exists>cs. chunks doc = fst (processChunks lib cfg gen (basename io) st 0 cs)"
  using assms
  by (auto simp: processPDF_def Let_def case_prod_unfold split: option.splits)

lemma demo_bad_fails:
  "fst (generateEmbedding demoLibrary defaultModel st (ascii ''bad'')) = Inl PipelineError"
  by (simp add: generateEmbedding_def initEmbeddingModel_def demoLibrary_def defaultModel_def Let_def)

section \<open>Facts about the optimizer\<close>

lemma optimizeStep_inband:
  assumes lo: "MIN_CHUNK_LENGTH \<le> length (trim (content c))"
    and hi: "length (trim (content c)) \<le> MAX_CHUNK_LENGTH"
  shows "map content (flushed (optimizeStep st c)) = map content (flushed st) @ [content c]
       \<and> map embedding (flushed (optimizeStep st c)) = map embedding (flushed st) @ [embedding c]
       \<and> counters (optimizeStep st c) = counters st
       \<and> optimized (optimizeStep st c) = flushed st
       \<and> (\<exists>cur. currentChunk (optimizeStep st c) = Some cur \<and> content cur = content c)"
proof -
  from lo have pos: "0 < length (trim (content c))" by (auto simp: MIN_CHUNK_LENGTH_def)
  with length_trim_le [of "content c"] have ne: "content c \<noteq> []" by auto
  from lo have notshort: "\<not> length (trim (content c)) < MIN_CHUNK_LENGTH" by simp
  show ?thesis
    using pos ne notshort hi
    by (simp add: optimizeStep_def Let_def flushed_def startChunk_def)
qed

lemma foldl_optimizeStep_inband:
  assumes "\<forall>c \<in> set cs. MIN_CHUNK_LENGTH \<le> length (trim (content c))
                        \<and> length (trim (content c)) \<le> MAX_CHUNK_LENGTH"
  shows "map content (flushed (foldl optimizeStep st cs)) = map content (flushed st) @ map content cs
       \<and> map embedding (flushed (foldl optimizeStep st cs)) = map embedding (flushed st) @ map embedding cs
       \<and> counters (foldl optimizeStep st cs) = counters st
       \<and> (cs \<noteq> [] \<longrightarrow> (\<exists>cur. currentChunk (foldl optimizeStep st cs) = Some cur
                              \<and> MIN_CHUNK_LENGTH \<le> length (trim (content cur))))"
  using assms
proof (induction cs rule: rev_induct)
  case Nil
  then show ?case by simp
next
  case (snoc c cs)
  from snoc.prems have c: "MIN_CHUNK_LENGTH \<le> length (trim (content c))"
    "length (trim (content c)) \<le> MAX_CHUNK_LENGTH" by auto
  from snoc have IH: "map content (flushed (foldl optimizeStep st cs)) = map content (flushed st) @ map content cs"
    "map embedding (flushed (foldl optimizeStep st cs)) = map embedding (flushed st) @ map embedding cs"
    "counters (foldl optimizeStep st cs) = counters st" by auto
  from optimizeStep_inband [OF c, of "foldl optimizeStep st cs"] IH c(1)
  show ?case by auto
qed

lemma optimizeFinish_inband:
  assumes "currentChunk st = Some cur" "MIN_CHUNK_LENGTH \<le> length (trim (content cur))"
  shows "optimizeFinish st = (flushed st, counters st)"
  using assms by (simp add: optimizeFinish_def flushed_def)

lemma length_joined:
  "length (joined start xs) = length start + sum_list (map (\<lambda>x. 1 + length (content x)) xs)"
  unfolding joined_def
  by (induction xs arbitrary: start) (simp_all add: SEPARATOR_def)

lemma foldl_optimizeStep_short:
  assumes "\<forall>c \<in> set xs. 0 < length (trim (content c)) \<and> length (trim (content c)) < MIN_CHUNK_LENGTH"
    and "currentChunk st = Some cur"
    and "length (content cur) + sum_list (map (\<lambda>x. 1 + length (content x)) xs) \<le> MAX_CHUNK_LENGTH"
  shows "optimized (foldl optimizeStep st xs) = optimized st
       \<and> (\<exists>cur'. currentChunk (foldl optimizeStep st xs) = Some cur'
                 \<and> content cur' = joined (content cur) xs)"
  using assms
proof (induction xs arbitrary: st cur)
  case Nil
  then show ?case by (simp add: joined_def)
next
  case (Cons x xs)
  from Cons.prems(1) have x: "0 < length (trim (content x))" "length (trim (content x)) < MIN_CHUNK_LENGTH"
    by auto
  with length_trim_le [of "content x"] have ne: "content x \<noteq> []" by auto
  let ?cur = "cur\<lparr>content := content cur @ SEPARATOR @ content x\<rparr>"
  from Cons.prems(3) have fits: "length (content cur @ SEPARATOR @ content x) \<le> MAX_CHUNK_LENGTH"
    by (simp add: SEPARATOR_def)
  have step: "optimized (optimizeStep st x) = optimized st"
    "currentChunk (optimizeStep st x) = Some ?cur"
    using x ne fits Cons.prems(2) by (simp_all add: optimizeStep_def Let_def)
  have rest: "length (content ?cur) + sum_list (map (\<lambda>x. 1 + length (content x)) xs) \<le> MAX_CHUNK_LENGTH"
    using Cons.prems(3) by (simp add: SEPARATOR_def)
  from Cons.prems(1) have "\<forall>c \<in> set xs. 0 < length (trim (content c)) \<and> length (trim (content c)) < MIN_CHUNK_LENGTH"
    by simp
  from Cons.IH [OF this step(2) rest] step(1)
  show ?case by (simp add: joined_def)
qed

lemma spaced_snoc:
  "spaced (xs @ [c]) = (spaced xs \<and> (xs \<noteq> [] \<and> short (last xs) \<longrightarrow> \<not> short c))"
  by (induction xs rule: spaced.induct) auto

lemma spaced_nth:
  "spaced xs \<Longrightarrow> Suc i < length xs \<Longrightarrow> short (xs ! i) \<Longrightarrow> \<not> short (xs ! Suc i)"
proof (induction xs arbitrary: i rule: spaced.induct)
  case (1 x y rest)
  then show ?case by (cases i) auto
qed auto

lemma steady_step:
  assumes st: "steady st"
    and trimmed: "trim (content c) = content c"
    and fits: "length (content c) \<le> MAX_CHUNK_LENGTH"
  shows "steady (optimizeStep st c)"
proof (cases "content c = []")
  case True
  with st show ?thesis
    by (cases "currentChunk st") (auto simp: optimizeStep_def steady_def flushed_def)
next
  case ne: False
  show ?thesis
  proof (cases "length (content c) < MIN_CHUNK_LENGTH")
    case isshort: True
    show ?thesis
    proof (cases "currentChunk st")
      case None
      with st have "optimized st = []" by (simp add: steady_def)
      with None ne isshort trimmed fits show ?thesis
        by (simp add: optimizeStep_def steady_def flushed_def startChunk_def Let_def)
    next
      case (Some cur)
      show ?thesis
      proof (cases "length (content cur @ SEPARATOR @ content c) \<le> MAX_CHUNK_LENGTH")
        case True
        with Some ne isshort trimmed st show ?thesis
          by (auto simp: optimizeStep_def steady_def flushed_def Let_def short_def SEPARATOR_def)
      next
        case False
        with isshort have "\<not> short cur"
          by (simp add: short_def SEPARATOR_def MIN_CHUNK_LENGTH_def MAX_CHUNK_LENGTH_def)
        with False Some ne isshort trimmed fits st show ?thesis
          by (auto simp: optimizeStep_def steady_def flushed_def Let_def startChunk_def spaced_snoc)
      qed
    qed
  next
    case notshort: False
    then have ns: "\<not> short (startChunk c n b)" for n b by (simp add: short_def startChunk_def)
    from st have sp: "spaced (flushed st)"
      by (auto simp: steady_def flushed_def spaced_snoc split: option.splits)
    from st have le: "\<forall>x \<in> set (flushed st). length (content x) \<le> MAX_CHUNK_LENGTH"
      by (simp add: steady_def)
    have opt: "optimized (optimizeStep st c) = flushed st"
      using ne notshort trimmed fits by (simp add: optimizeStep_def Let_def)
    have cur: "\<exists>n b m. currentChunk (optimizeStep st c) = Some (startChunk c n b)
                 \<or> currentChunk (optimizeStep st c) = Some ((startChunk c n b)\<lparr>metadata := m\<rparr>)"
      using ne notshort trimmed fits by (auto simp: optimizeStep_def Let_def)
    then obtain cur' where cur': "currentChunk (optimizeStep st c) = Some cur'"
      "content cur' = content c" by (auto simp: startChunk_def)
    with notshort have "\<not> short cur'" by (simp add: short_def)
    with opt cur' sp le fits show ?thesis
      by (auto simp: steady_def flushed_def)
  qed
qed

lemma steady_foldl:
  assumes "steady st"
    and "\<forall>c \<in> set cs. trim (content c) = content c \<and> length (content c) \<le> MAX_CHUNK_LENGTH"
  shows "steady (foldl optimizeStep st cs)"
  using assms by (induction cs arbitrary: st) (auto intro: steady_step)

lemma steady_finish:
  assumes st: "steady st"
  shows "spaced (fst (optimizeFinish st))
       \<and> (\<forall>c \<in> set (fst (optimizeFinish st)). length (content c) \<le> MAX_CHUNK_LENGTH)"
proof (cases "currentChunk st")
  case None
  with st show ?thesis by (simp add: optimizeFinish_def steady_def flushed_def)
next
  case (Some cur)
  from st Some have push: "spaced (optimized st @ [cur])
      \<and> (\<forall>c \<in> set (optimized st @ [cur]). length (content c) \<le> MAX_CHUNK_LENGTH)"
    by (auto simp: steady_def flushed_def spaced_snoc)
  show ?thesis
  proof (cases "length (trim (content cur)) < MIN_CHUNK_LENGTH \<and> 0 < length (optimized st)
                \<and> length (content (last (optimized st)) @ SEPARATOR @ content cur) \<le> MAX_CHUNK_LENGTH")
    case False
    with Some push show ?thesis by (auto simp: optimizeFinish_def Let_def)
  next
    case True
    let ?last = "last (optimized st)"
    let ?merged = "?last\<lparr>content := content ?last @ SEPARATOR @ content cur,
                          metadata := (metadata ?last)(''merged'' \<mapsto> JBool True)\<rparr>"
    from True have ne: "optimized st \<noteq> []" by auto
    then have split: "optimized st = butlast (optimized st) @ [?last]" by simp
    from True Some have res: "fst (optimizeFinish st) = butlast (optimized st) @ [?merged]"
      by (simp add: optimizeFinish_def Let_def)
    from st have "spaced (butlast (optimized st) @ [?last])" using split by (simp add: steady_def)
    moreover have "short ?merged \<Longrightarrow> short ?last" by (simp add: short_def)
    ultimately have "spaced (butlast (optimized st) @ [?merged])"
      by (auto simp: spaced_snoc)
    moreover have "\<forall>c \<in> set (butlast (optimized st)). length (content c) \<le> MAX_CHUNK_LENGTH"
      using st by (auto simp: steady_def flushed_def dest: in_set_butlastD split: option.splits)
    ultimately show ?thesis using True by (simp add: res)
  qed
qed

lemma split_from_nil: "split_from (\<lambda>q. []) s p q = [drop p s]"
proof (induction "length s - q" arbitrary: q)
  case 0
  then show ?case by (subst split_from.simps) simp
next
  case (Suc k)
  then have "split_from (\<lambda>q. []) s p (Suc q) = [drop p s]" by simp
  then show ?case by (subst split_from.simps) simp
qed

lemma split_from_no_match:
  assumes "\<And>q. m q = []"
  shows "split_from m s p q = [drop p s]"
proof -
  from assms have "m = (\<lambda>q. [])" by (simp add: fun_eq_iff)
  then show ?thesis by (simp add: split_from_nil)
qed

lemma js_includes_length: "js_includes s t \<Longrightarrow> length t \<le> length s"
  by (induction s) (auto dest: prefix_length_le)

lemma trim_unchanged:
  assumes "s \<noteq> []" "\<not> isWhiteSpace (hd s)" "\<not> isWhiteSpace (last s)"
  shows "trim s = s"
proof -
  from assms(1,2) have "dropWhile isWhiteSpace s = s" by (cases s) auto
  moreover from assms(1,3) have "dropWhile isWhiteSpace (rev s) = rev s"
    by (cases "rev s") (auto simp: hd_rev)
  ultimately show ?thesis by (simp add: trim_def)
qed

lemma trim_Nil: "trim [] = []"
  by (simp add: trim_def)

lemma splitLongContent_without_terminator:
  assumes none: "\<forall>c \<in> set txt. c \<noteq> 0x3002 \<and> c \<noteq> 0xFF01 \<and> c \<noteq> 0xFF1F \<and> c \<noteq> 0xFF1B \<and> c \<noteq> 0xA"
    and nonblank: "trim txt \<noteq> []"
    and long: "maxLength < length txt"
  shows "splitLongContent txt maxLength = [trim txt]"
proof -
  from long have ne: "txt \<noteq> []" by auto
  have "matchAt sentenceEnd txt q = []" for q
    using none by (auto simp: matchAt_def sentenceEnd_def dest: nth_mem)
  then have sentences: "splitRe sentenceEnd txt = [txt]"
    using ne by (simp add: splitRe_def split_from_no_match)
  have "\<not> js_includes txt (txt @ [c])" for c
    using js_includes_length [of "txt" "txt @ [c]"] by auto
  then have punct: "sentenceWithPunctuation txt txt = txt"
    by (simp add: sentenceWithPunctuation_def)
  show ?thesis
    using nonblank long
    by (simp add: splitLongContent_def sentences punct Let_def trim_Nil)
qed

section \<open>Facts about the content filters\<close>

lemma length_reindex: "length (reindex cs) = length cs"
  by (simp add: reindex_def)

lemma filterStep_cases:
  "(\<exists>c'. filterStep (kept, r) chunk = (kept @ [c'], r)) \<or> filterStep (kept, r) chunk = (kept, Suc r)"
  by (simp add: Let_def)

lemma filterStep_smart_cases:
  "(\<exists>c' k'. filterStep_smart (kept, r, k) chunk = (kept @ [c'], r, k'))
   \<or> filterStep_smart (kept, r, k) chunk = (kept, Suc r, k)"
  by (simp add: Let_def)

lemma filterStep_enhanced_cases:
  "(\<exists>c' k'. filterStep_enhanced (kept, r, k) chunk = (kept @ [c'], r, k'))
   \<or> filterStep_enhanced (kept, r, k) chunk = (kept, Suc r, k)"
  by (simp add: Let_def)

lemma foldl_filterStep_balance:
  "length (fst (foldl filterStep (kept, r) cs)) + snd (foldl filterStep (kept, r) cs)
     = length kept + r + length cs"
proof (induction cs arbitrary: kept r)
  case Nil
  then show ?case by simp
next
  case (Cons c cs)
  from filterStep_cases [of kept r c] show ?case
  proof
    assume "\<exists>c'. filterStep (kept, r) c = (kept @ [c'], r)"
    then obtain c' where "filterStep (kept, r) c = (kept @ [c'], r)" by blast
    with Cons.IH [of "kept @ [c']" r] show ?thesis by simp
  next
    assume "filterStep (kept, r) c = (kept, Suc r)"
    with Cons.IH [of kept "Suc r"] show ?thesis by simp
  qed
qed

lemma foldl_filterStep_smart_balance:
  "length (fst (foldl filterStep_smart (kept, r, k) cs)) + fst (snd (foldl filterStep_smart (kept, r, k) cs))
     = length kept + r + length cs"
proof (induction cs arbitrary: kept r k)
  case Nil
  then show ?case by simp
next
  case (Cons c cs)
  from filterStep_smart_cases [of kept r k c] show ?case
  proof
    assume "\<exists>c' k'. filterStep_smart (kept, r, k) c = (kept @ [c'], r, k')"
    then obtain c' k' where "filterStep_smart (kept, r, k) c = (kept @ [c'], r, k')" by blast
    with Cons.IH [of "kept @ [c']" r k'] show ?thesis by simp
  next
    assume "filterStep_smart (kept, r, k) c = (kept, Suc r, k)"
    with Cons.IH [of kept "Suc r" k] show ?thesis by simp
  qed
qed

lemma foldl_filterStep_enhanced_balance:
  "length (fst (foldl filterStep_enhanced (kept, r, k) cs)) + fst (snd (foldl filterStep_enhanced (kept, r, k) cs))
     = length kept + r + length cs"
proof (induction cs arbitrary: kept r k)
  case Nil
  then show ?case by simp
next
  case (Cons c cs)
  from filterStep_enhanced_cases [of kept r k c] show ?case
  proof
    assume "\<exists>c' k'. filterStep_enhanced (kept, r, k) c = (kept @ [c'], r, k')"
    then obtain c' k' where "filterStep_enhanced (kept, r, k) c = (kept @ [c'], r, k')" by blast
    with Cons.IH [of "kept @ [c']" r k'] show ?thesis by simp
  next
    assume "filterStep_enhanced (kept, r, k) c = (kept, Suc r, k)"
    with Cons.IH [of kept "Suc r" k] show ?thesis by simp
  qed
qed

lemma filterFile_balance:
  "removed (fst (filterFile d w)) + filtered (fst (filterFile d w)) = original (fst (filterFile d w))
   \<and> (case snd (filterFile d w) of
         None \<Rightarrow> original (fst (filterFile d w)) = 0
       | Some out \<Rightarrow> d = Chunks (case d of Chunks cs \<Rightarrow> cs | _ \<Rightarrow> [])
                    \<and> original (fst (filterFile d w)) = length (case d of Chunks cs \<Rightarrow> cs | _ \<Rightarrow> [])
                    \<and> filtered (fst (filterFile d w)) = length out)"
  using foldl_filterStep_balance [of "[]" 0]
  by (cases d) (auto simp: filterFile_def Let_def case_prod_unfold length_reindex add.commute)

lemma filterFile_smart_balance:
  "removed (fst (filterFile_smart d w)) + filtered (fst (filterFile_smart d w)) = original (fst (filterFile_smart d w))
   \<and> (case snd (filterFile_smart d w) of
         None \<Rightarrow> original (fst (filterFile_smart d w)) = 0
       | Some out \<Rightarrow> d = Chunks (case d of Chunks cs \<Rightarrow> cs | _ \<Rightarrow> [])
                    \<and> original (fst (filterFile_smart d w)) = length (case d of Chunks cs \<Rightarrow> cs | _ \<Rightarrow> [])
                    \<and> filtered (fst (filterFile_smart d w)) = length out)"
  using foldl_filterStep_smart_balance [of "[]" 0 0]
  by (cases d) (auto simp: filterFile_smart_def Let_def case_prod_unfold length_reindex add.commute)

lemma filterFile_enhanced_balance:
  "removed (fst (filterFile_enhanced d w)) + filtered (fst (filterFile_enhanced d w)) = original (fst (filterFile_enhanced d w))
   \<and> (case snd (filterFile_enhanced d w) of
         None \<Rightarrow> original (fst (filterFile_enhanced d w)) = 0
       | Some out \<Rightarrow> d = Chunks (case d of Chunks cs \<Rightarrow> cs | _ \<Rightarrow> [])
                    \<and> original (fst (filterFile_enhanced d w)) = length (case d of Chunks cs \<Rightarrow> cs | _ \<Rightarrow> [])
                    \<and> filtered (fst (filterFile_enhanced d w)) = length out)"
  using foldl_filterStep_enhanced_balance [of "[]" 0 0]
  by (cases d) (auto simp: filterFile_enhanced_def Let_def case_prod_unfold length_reindex add.commute)

lemma assessContentQuality_low_diversity:
  assumes "setSize (codePoints (replaceAll whitespaceChar [] (trim c))) < 5"
    and "\<not> hasEducationalContent_enhanced (trim c)"
  shows "assessContentQuality c = 0"
  using assms by (simp add: assessContentQuality_def Let_def)

section \<open>The claims about the PDF processor\<close>

text \<open>
  Claim C2. On the text \<^verbatim>\<open>"\u51fa\u7248\u793e\u4fe1\u606f\n\u771f\u5b9e\u6559\u5b66\u5185\u5bb9\u7b2c\u4e00\u8bfe\u6c49\u8bed\u62fc\u97f3\u3002"\<close>
  the claim expects \<^verbatim>\<open>cleanText\<close> to drop the publisher line only and to leave
  \<open>needsReview\<close> false. The code first replaces every whitespace run, the line break
  included, by one space; on the resulting single line the line-anchored publisher pattern
  matches everything, the over-cleaning guard restores the collapsed text, and
  \<open>needsReview\<close> is true. The theorem evaluates \<^verbatim>\<open>cleanText\<close> on that input.
\<close>

theorem cleanText_publisher_scenario:
  "cleanText [0x51FA, 0x7248, 0x793E, 0x4FE1, 0x606F, 0xA, 0x771F, 0x5B9E, 0x6559, 0x5B66, 0x5185,
              0x5BB9, 0x7B2C, 0x4E00, 0x8BFE, 0x6C49, 0x8BED, 0x62FC, 0x97F3, 0x3002]
   = ([0x51FA, 0x7248, 0x793E, 0x4FE1, 0x606F, 0x20, 0x771F, 0x5B9E, 0x6559, 0x5B66, 0x5185,
       0x5BB9, 0x7B2C, 0x4E00, 0x8BFE, 0x6C49, 0x8BED, 0x62FC, 0x97F3, 0x3002], True)"
  by code_simp

text \<open>
  Claim C8. Whenever the text left after the removal patterns is shorter than a tenth of
  the raw text, \<^verbatim>\<open>cleanText\<close> returns the whitespace-collapsed raw text (no removal
  pattern applied) with \<open>needsReview\<close> set. The short-circuit for texts that collapse
  to fewer than ten code units returns the same pair.
\<close>

theorem cleanText_overcleaning_guard:
  assumes "10 * length (removeBoilerplate (collapseWhitespace text)) < length text"
  shows "cleanText text = (trim (replaceAll whitespaceRuns [0x20] text), True)"
  using assms by (simp add: cleanText_def Let_def collapseWhitespace_eq)

theorem cleanText_overcleaning_guard_witness:
  "cleanText (ascii ''Cambridge University Press'')
   = (trim (replaceAll whitespaceRuns [0x20] (ascii ''Cambridge University Press'')), True)"
proof -
  have "10 * length (removeBoilerplate (collapseWhitespace (ascii ''Cambridge University Press'')))
        < length (ascii ''Cambridge University Press'')"
    by code_simp
  then show ?thesis by (rule cleanText_overcleaning_guard)
qed

text \<open>
  Claim C9. A failure of the embedding call on one chunk leaves the document processed:
  when the file is read, parsed and split, and \<^verbatim>\<open>generateEmbedding\<close> throws on the
  chunk that follows the chunks \<open>before\<close>, \<^verbatim>\<open>processPDF\<close> still returns a document,
  with one output chunk per input chunk and the contents unchanged; the chunks before the
  failing one are what they are without it, the failing chunk is kept with no embedding,
  and the chunks after it are processed as usual from the state the failed call left.
\<close>

theorem embedding_failure_is_local:
  assumes io: "readFile io = Some bytes" "pdfParse io = Some pdf"
      "splitText io (fst (cleanText (pdf_text pdf))) = Some textChunks"
    and limited: "slice0 textChunks (maxChunks io) = before @ chunk # after"
    and before: "processChunks lib cfg True (basename io) st 0 before = (done, st1)"
    and nonblank: "0 < length (trim chunk)"
    and fails: "generateEmbedding lib cfg st1 chunk = (Inl e, st2)"
  shows "\<exists>doc. fst (processPDF lib cfg io st True) = Inr doc
           \<and> totalChunks doc = length before + 1 + length after
           \<and> map content (chunks doc) = before @ chunk # after
           \<and> take (length before) (chunks doc) = done
           \<and> embedding (chunks doc ! length before) = None
           \<and> drop (Suc (length before)) (chunks doc)
               = fst (processChunks lib cfg True (basename io) st2 (Suc (length before)) after)"
proof -
  from processPDF_success [OF io, of lib cfg st True] limited obtain doc where
    doc: "fst (processPDF lib cfg io st True) = Inr doc"
    and total: "totalChunks doc = length (before @ chunk # after)"
    and cs: "chunks doc = fst (processChunks lib cfg True (basename io) st 0 (before @ chunk # after))"
    by auto
  have len: "length done = length before"
    using processChunks_length [of lib cfg True "basename io" st 0 before] before by simp
  have split: "chunks doc =
      done @ \<lparr>content = chunk,
              metadata = [''chunkIndex'' \<mapsto> JNum (int (length before)), ''source'' \<mapsto> JStr (basename io)],
              embedding = None\<rparr>
           # fst (processChunks lib cfg True (basename io) st2 (Suc (length before)) after)"
    unfolding cs processChunks_append using before nonblank fails
    by (simp add: Let_def case_prod_unfold)
  show ?thesis
    apply (rule exI [of _ doc])
    using doc total len
    apply (simp add: split nth_append)
    using processChunks_contents [of lib cfg True "basename io" st 0 before]
          processChunks_contents [of lib cfg True "basename io" st2 "Suc (length before)" after] before
    apply simp
    done
qed

theorem embedding_failure_is_local_witness:
  "\<exists>doc. fst (processPDF demoLibrary defaultModel demoCollaborators freshProcessor True) = Inr doc
         \<and> totalChunks doc = length [ascii ''one''] + 1 + length [ascii ''three'', ascii ''four'', ascii ''five'']
         \<and> map content (chunks doc) = [ascii ''one''] @ ascii ''bad'' # [ascii ''three'', ascii ''four'', ascii ''five'']
         \<and> take (length [ascii ''one'']) (chunks doc)
             = fst (processChunks demoLibrary defaultModel True (basename demoCollaborators) freshProcessor 0 [ascii ''one''])
         \<and> embedding (chunks doc ! length [ascii ''one'']) = None
         \<and> drop (Suc (length [ascii ''one''])) (chunks doc)
             = fst (processChunks demoLibrary defaultModel True (basename demoCollaborators)
                      (snd (generateEmbedding demoLibrary defaultModel
                         (snd (processChunks demoLibrary defaultModel True (basename demoCollaborators) freshProcessor 0 [ascii ''one'']))
                         (ascii ''bad'')))
                      (Suc (length [ascii ''one''])) [ascii ''three'', ascii ''four'', ascii ''five''])"
proof (rule embedding_failure_is_local)
  show "readFile demoCollaborators = Some 1000" by (simp add: demoCollaborators_def)
  show "pdfParse demoCollaborators = Some \<lparr>pdf_text = ascii ''one bad three four five'', numpages = 1\<rparr>"
    by (simp add: demoCollaborators_def)
  show "splitText demoCollaborators (fst (cleanText (pdf_text \<lparr>pdf_text = ascii ''one bad three four five'', numpages = 1\<rparr>)))
        = Some [ascii ''one'', ascii ''bad'', ascii ''three'', ascii ''four'', ascii ''five'']"
    by (simp add: demoCollaborators_def)
  show "slice0 [ascii ''one'', ascii ''bad'', ascii ''three'', ascii ''four'', ascii ''five''] (maxChunks demoCollaborators)
        = [ascii ''one''] @ ascii ''bad'' # [ascii ''three'', ascii ''four'', ascii ''five'']"
    by (simp add: demoCollaborators_def slice0_def)
  show "processChunks demoLibrary defaultModel True (basename demoCollaborators) freshProcessor 0 [ascii ''one'']
        = (fst (processChunks demoLibrary defaultModel True (basename demoCollaborators) freshProcessor 0 [ascii ''one'']),
           snd (processChunks demoLibrary defaultModel True (basename demoCollaborators) freshProcessor 0 [ascii ''one'']))"
    by simp
  show "0 < length (trim (ascii ''bad''))" by code_simp
  show "generateEmbedding demoLibrary defaultModel
          (snd (processChunks demoLibrary defaultModel True (basename demoCollaborators) freshProcessor 0 [ascii ''one'']))
          (ascii ''bad'')
        = (Inl PipelineError,
           snd (generateEmbedding demoLibrary defaultModel
                  (snd (processChunks demoLibrary defaultModel True (basename demoCollaborators) freshProcessor 0 [ascii ''one'']))
                  (ascii ''bad'')))"
    using demo_bad_fails by (simp add: prod_eq_iff)
qed

text \<open>
  Claim C3, as amended. The code never compares a vector's length with the profile's
  \<open>dimensions\<close>. What holds: every embedding stored in a processed document is the
  vector the pipeline returned for that chunk's text (with the profile's instruction in
  front): the tensor's data, the first row of a nested array, or the flat array, of
  whatever length. Only an exception or an unrecognised result leaves a chunk without
  embedding.
\<close>

theorem stored_embedding_is_pipeline_output:
  assumes "processPDF lib cfg io st gen = (Inr doc, st')"
    and "c \<in> set (chunks doc)" and "embedding c = Some v"
  shows "\<exists>w w' result.
           callPipeline lib w (if instruction cfg \<noteq> [] then instruction cfg @ content c else content c)
             = (Some result, w')
           \<and> (result = WithData v \<or> (\<exists>rest. result = ArrayOfArrays v rest) \<or> result = FlatArray v)"
proof -
  from processPDF_chunks [OF assms(1)] assms(2) obtain cs where
    "c \<in> set (fst (processChunks lib cfg gen (basename io) st 0 cs))" by auto
  from processChunks_embedding [OF this assms(3)] obtain st1 st2 where
    "generateEmbedding lib cfg st1 (content c) = (Inr v, st2)" by blast
  then show ?thesis by (rule generateEmbedding_result)
qed

theorem stored_embedding_is_pipeline_output_witness:
  "\<exists>w w' result.
     callPipeline demoLibrary w (ascii ''one'') = (Some result, w')
     \<and> (result = WithData [1, 2, 3] \<or> (\<exists>rest. result = ArrayOfArrays [1, 2, 3] rest)
          \<or> result = FlatArray [1, 2, 3])"
proof -
  let ?run = "processPDF demoLibrary defaultModel demoCollaborators freshProcessor True"
  let ?c = "\<lparr>content = ascii ''one'',
             metadata = [''chunkIndex'' \<mapsto> JNum (int 0), ''source'' \<mapsto> JStr (ascii ''a.pdf'')],
             embedding = Some [1, 2, 3 :: int]\<rparr>"
  have io: "readFile demoCollaborators = Some 1000"
    "pdfParse demoCollaborators = Some \<lparr>pdf_text = ascii ''one bad three four five'', numpages = 1\<rparr>"
    "splitText demoCollaborators (fst (cleanText (pdf_text \<lparr>pdf_text = ascii ''one bad three four five'', numpages = 1\<rparr>)))
       = Some [ascii ''one'', ascii ''bad'', ascii ''three'', ascii ''four'', ascii ''five'']"
    by (simp_all add: demoCollaborators_def)
  from processPDF_success [OF io, of demoLibrary defaultModel freshProcessor True]
  obtain doc where doc: "fst ?run = Inr doc"
    and cs: "chunks doc = fst (processChunks demoLibrary defaultModel True (basename demoCollaborators) freshProcessor 0
               (slice0 [ascii ''one'', ascii ''bad'', ascii ''three'', ascii ''four'', ascii ''five''] (maxChunks demoCollaborators)))"
    by blast
  have nonblank: "0 < length (trim (ascii ''one''))" by code_simp
  have differ: "ascii ''one'' \<noteq> ascii ''bad''" by code_simp
  have "?c \<in> set (chunks doc)"
    unfolding cs using nonblank differ
    by (simp add: slice0_def demoCollaborators_def demoLibrary_def defaultModel_def freshProcessor_def
          generateEmbedding_def initEmbeddingModel_def Let_def case_prod_unfold)
  moreover have "?run = (Inr doc, snd ?run)" using doc by (simp add: prod_eq_iff)
  ultimately show ?thesis
    using stored_embedding_is_pipeline_output [of demoLibrary defaultModel demoCollaborators freshProcessor True doc "snd ?run" ?c "[1, 2, 3]"]
    by (simp add: defaultModel_def)
qed

theorem wrong_length_embedding_is_stored:
  "(case fst (processPDF demoLibrary defaultModel demoCollaborators freshProcessor True) of
      Inr doc \<Rightarrow> map embedding (chunks doc)
    | Inl e \<Rightarrow> [])
   = [Some [1, 2, 3], None, Some [1, 2, 3], Some [1, 2, 3], Some [1, 2, 3]]
   \<and> dimensions defaultModel = 384"
  by code_simp

section \<open>The claims about the optimizer\<close>

text \<open>
  Claim C1, as amended. The lower bound fails by design: a short pending chunk is pushed
  as it is when a chunk of regular length arrives, so chunks below the minimum are not
  confined to the end. What holds for every chunk sequence whose contents carry no leading
  or trailing whitespace and are at most \<open>MAX_CHUNK_LENGTH\<close> long (so that nothing is
  split): no returned chunk is longer than \<open>MAX_CHUNK_LENGTH\<close>, and a returned chunk
  shorter than \<open>MIN_CHUNK_LENGTH\<close> is the last one or is directly followed by a chunk of
  at least \<open>MIN_CHUNK_LENGTH\<close>.
\<close>

theorem optimizeChunks_length_band:
  assumes "\<forall>c \<in> set cs. trim (content c) = content c \<and> length (content c) \<le> MAX_CHUNK_LENGTH"
  shows "(\<forall>c \<in> set (fst (optimizeChunks cs st)). length (content c) \<le> MAX_CHUNK_LENGTH)
       \<and> (\<forall>i. Suc i < length (fst (optimizeChunks cs st))
               \<and> length (content (fst (optimizeChunks cs st) ! i)) < MIN_CHUNK_LENGTH
             \<longrightarrow> MIN_CHUNK_LENGTH \<le> length (content (fst (optimizeChunks cs st) ! Suc i)))"
proof (cases "cs = []")
  case True
  then show ?thesis by (simp add: optimizeChunks_def)
next
  case False
  let ?init = "\<lparr>optimized = [], currentChunk = None, mergedCount = 0, counters = st\<rparr>"
  have "steady ?init" by (simp add: steady_def flushed_def)
  from steady_finish [OF steady_foldl [OF this assms]] False
  have "spaced (fst (optimizeChunks cs st))"
    and le: "\<forall>c \<in> set (fst (optimizeChunks cs st)). length (content c) \<le> MAX_CHUNK_LENGTH"
    by (simp_all add: optimizeChunks_def)
  from spaced_nth [OF this(1)] le show ?thesis
    by (auto simp: short_def not_less)
qed

theorem optimizeChunks_length_band_witness:
  "length (content (fst (optimizeChunks [letters 30, letters 100] noStatistics) ! 0)) \<le> MAX_CHUNK_LENGTH
   \<and> MIN_CHUNK_LENGTH \<le> length (content (fst (optimizeChunks [letters 30, letters 100] noStatistics) ! Suc 0))"
proof -
  let ?out = "fst (optimizeChunks [letters 30, letters 100] noStatistics)"
  have "trim (content (letters 30)) = content (letters 30)" by code_simp
  moreover have "trim (content (letters 100)) = content (letters 100)" by code_simp
  ultimately have input: "\<forall>c \<in> set [letters 30, letters 100]. trim (content c) = content c
                      \<and> length (content c) \<le> MAX_CHUNK_LENGTH"
    by (simp add: letters_def MAX_CHUNK_LENGTH_def)
  have len: "length ?out = 2" by code_simp
  have first: "length (content (?out ! 0)) < MIN_CHUNK_LENGTH" by code_simp
  from optimizeChunks_length_band [OF input, of noStatistics]
  have upper: "\<forall>c \<in> set ?out. length (content c) \<le> MAX_CHUNK_LENGTH"
    and lower: "\<forall>i. Suc i < length ?out \<and> length (content (?out ! i)) < MIN_CHUNK_LENGTH
                  \<longrightarrow> MIN_CHUNK_LENGTH \<le> length (content (?out ! Suc i))"
    by blast+
  from len have "?out ! 0 \<in> set ?out" by simp
  with upper have "length (content (?out ! 0)) \<le> MAX_CHUNK_LENGTH" by blast
  moreover from lower len first have "MIN_CHUNK_LENGTH \<le> length (content (?out ! Suc 0))" by simp
  ultimately show ?thesis by simp
qed

text \<open>A chunk of 30 letters followed by a chunk of 100 letters: both are returned
  unchanged, and the first, which is not the last, is below the minimum.\<close>

theorem short_chunk_before_the_last:
  "length (fst (optimizeChunks [letters 30, letters 100] noStatistics)) = 2
   \<and> length (content (fst (optimizeChunks [letters 30, letters 100] noStatistics) ! 0)) = 30
   \<and> 30 < MIN_CHUNK_LENGTH"
  by code_simp

text \<open>
  Claim C4, as amended. Ten chunks of content length 30, none of them blank, are not
  merged in pairs: each short chunk is appended to the pending chunk as long as the result
  fits, so the optimizer returns a single chunk, the ten contents joined by single
  separators, of length 309 (which lies between the two bounds).
\<close>

theorem ten_short_chunks_merge_into_one:
  assumes ten: "length cs = 10"
    and each: "\<forall>c \<in> set cs. length (content c) = 30 \<and> trim (content c) \<noteq> []"
  shows "map content (fst (optimizeChunks cs st)) = [joined (content (hd cs)) (tl cs)]
       \<and> length (joined (content (hd cs)) (tl cs)) = 309
       \<and> MIN_CHUNK_LENGTH \<le> 309 \<and> 309 \<le> MAX_CHUNK_LENGTH"
proof -
  from ten obtain c rest where cs: "cs = c # rest" and rest: "length rest = 9"
    by (cases cs) auto
  let ?init = "\<lparr>optimized = [], currentChunk = None, mergedCount = 0, counters = st\<rparr>"
  have shortish: "0 < length (trim (content x)) \<and> length (trim (content x)) < MIN_CHUNK_LENGTH"
    if "x \<in> set cs" for x
    using that each length_trim_le [of "content x"] by (auto simp: MIN_CHUNK_LENGTH_def)
  from each cs have c30: "length (content c) = 30" by simp
  then have ne: "content c \<noteq> []" by auto
  have first: "optimized (optimizeStep ?init c) = []"
    "currentChunk (optimizeStep ?init c) = Some (startChunk c 0 False)"
    using shortish [of c] cs ne by (simp_all add: optimizeStep_def Let_def)
  from each cs have "\<forall>x \<in> set rest. length (content x) = 30" by simp
  then have "sum_list (map (\<lambda>x. 1 + length (content x)) rest) = 31 * length rest"
    by (induction rest) auto
  with rest have sum: "sum_list (map (\<lambda>x. 1 + length (content x)) rest) = 279" by simp
  then have fits: "length (content (startChunk c 0 False)) + sum_list (map (\<lambda>x. 1 + length (content x)) rest)
                   \<le> MAX_CHUNK_LENGTH"
    using c30 by (simp add: startChunk_def MAX_CHUNK_LENGTH_def)
  have "\<forall>x \<in> set rest. 0 < length (trim (content x)) \<and> length (trim (content x)) < MIN_CHUNK_LENGTH"
    using shortish cs by simp
  from foldl_optimizeStep_short [OF this first(2) fits] first(1)
  obtain cur where run: "optimized (foldl optimizeStep (optimizeStep ?init c) rest) = []"
    "currentChunk (foldl optimizeStep (optimizeStep ?init c) rest) = Some cur"
    "content cur = joined (content c) rest"
    by (auto simp: startChunk_def)
  have "fst (optimizeChunks cs st) = [cur]"
    using cs run(1,2) by (simp add: optimizeChunks_def optimizeFinish_def)
  moreover have "length (joined (content c) rest) = 309"
    using c30 sum by (simp add: length_joined)
  ultimately show ?thesis using run(3) cs
    by (simp add: MIN_CHUNK_LENGTH_def MAX_CHUNK_LENGTH_def)
qed

theorem ten_short_chunks_merge_into_one_witness:
  "map content (fst (optimizeChunks (replicate 10 (letters 30)) noStatistics))
     = [joined (content (hd (replicate 10 (letters 30)))) (tl (replicate 10 (letters 30)))]
   \<and> length (joined (content (hd (replicate 10 (letters 30)))) (tl (replicate 10 (letters 30)))) = 309
   \<and> MIN_CHUNK_LENGTH \<le> 309 \<and> 309 \<le> MAX_CHUNK_LENGTH"
proof (rule ten_short_chunks_merge_into_one)
  show "length (replicate 10 (letters 30)) = 10" by simp
  have "length (content (letters 30)) = 30" by (simp add: letters_def)
  moreover have "trim (content (letters 30)) \<noteq> []" by code_simp
  ultimately show "\<forall>c \<in> set (replicate 10 (letters 30)). length (content c) = 30 \<and> trim (content c) \<noteq> []"
    by simp
qed

theorem ten_short_chunks_not_five:
  "length (fst (optimizeChunks (replicate 10 (letters 30)) noStatistics)) \<noteq> 5"
  by code_simp

text \<open>
  Claim C5. On a sequence in which every chunk's trimmed length lies between the two
  bounds (such a chunk is not blank) the optimizer returns as many chunks, with the same
  contents and embeddings in the same order, and counts no merge and no removal.
\<close>

theorem optimizeChunks_idempotent:
  assumes "\<forall>c \<in> set cs. MIN_CHUNK_LENGTH \<le> length (trim (content c))
                        \<and> length (trim (content c)) \<le> MAX_CHUNK_LENGTH"
  shows "length (fst (optimizeChunks cs st)) = length cs
       \<and> map content (fst (optimizeChunks cs st)) = map content cs
       \<and> map embedding (fst (optimizeChunks cs st)) = map embedding cs
       \<and> snd (optimizeChunks cs st) = st"
proof (cases "cs = []")
  case True
  then show ?thesis by (simp add: optimizeChunks_def)
next
  case False
  let ?init = "\<lparr>optimized = [], currentChunk = None, mergedCount = 0, counters = st\<rparr>"
  from foldl_optimizeStep_inband [OF assms, of ?init] False
  obtain cur where run: "map content (flushed (foldl optimizeStep ?init cs)) = map content cs"
      "map embedding (flushed (foldl optimizeStep ?init cs)) = map embedding cs"
      "counters (foldl optimizeStep ?init cs) = st"
      "currentChunk (foldl optimizeStep ?init cs) = Some cur"
      "MIN_CHUNK_LENGTH \<le> length (trim (content cur))"
    by (auto simp: flushed_def)
  from optimizeFinish_inband [OF run(4,5)] False
  have "optimizeChunks cs st = (flushed (foldl optimizeStep ?init cs), counters (foldl optimizeStep ?init cs))"
    by (simp add: optimizeChunks_def)
  with run(1,2,3) show ?thesis by (simp, metis length_map)
qed

theorem optimizeChunks_idempotent_witness:
  "length (fst (optimizeChunks [letters 60, letters 100] noStatistics)) = length [letters 60, letters 100]
   \<and> map content (fst (optimizeChunks [letters 60, letters 100] noStatistics)) = map content [letters 60, letters 100]
   \<and> map embedding (fst (optimizeChunks [letters 60, letters 100] noStatistics)) = map embedding [letters 60, letters 100]
   \<and> snd (optimizeChunks [letters 60, letters 100] noStatistics) = noStatistics"
proof (rule optimizeChunks_idempotent)
  have "MIN_CHUNK_LENGTH \<le> length (trim (content (letters 60)))" by code_simp
  moreover have "length (trim (content (letters 60))) \<le> MAX_CHUNK_LENGTH" by code_simp
  moreover have "MIN_CHUNK_LENGTH \<le> length (trim (content (letters 100)))" by code_simp
  moreover have "length (trim (content (letters 100))) \<le> MAX_CHUNK_LENGTH" by code_simp
  ultimately show "\<forall>c \<in> set [letters 60, letters 100]. MIN_CHUNK_LENGTH \<le> length (trim (content c))
                        \<and> length (trim (content c)) \<le> MAX_CHUNK_LENGTH" by simp
qed

text \<open>
  Claim C10. The claim expects \<^verbatim>\<open>splitLongContent\<close> to cut a content without
  sentence terminator at \<open>maxLength\<close>. The hard cut is only reached when no part was
  collected; a content of 8001 letters is one sentence, which the loop takes as a part of
  its own without looking at its length, and it comes back whole.
\<close>

theorem splitLongContent_keeps_overlong_sentence:
  "splitLongContent (replicate 8001 0x61) 8000 = [replicate 8001 0x61]"
proof -
  have t: "trim (replicate 8001 (0x61::int)) = replicate 8001 0x61"
    by (rule trim_unchanged) (simp_all add: isWhiteSpace_def last_replicate)
  have "splitLongContent (replicate 8001 0x61) 8000 = [trim (replicate 8001 0x61)]"
    by (rule splitLongContent_without_terminator) (simp_all add: t)
  with t show ?thesis by simp
qed

section \<open>The claims about the content filters\<close>

text \<open>
  Claim C6. In each of the three filters a turn of the loop either appends exactly one
  chunk to the kept chunks and leaves the removed counter alone, or leaves the kept chunks
  alone and adds exactly one to the removed counter; and the counts \<^verbatim>\<open>filterFile\<close>
  returns satisfy \<open>removed + filtered = original\<close>. When the file is written,
  \<open>original\<close> is the number of chunks read and \<open>filtered\<close> the number of chunks written;
  otherwise (unreadable file, no chunks, failed write) all counts are zero.
\<close>

theorem filter_counts_balance:
  "((\<exists>c'. filterStep (kept, r) chunk = (kept @ [c'], r)) \<or> filterStep (kept, r) chunk = (kept, Suc r))
   \<and> ((\<exists>c' k'. filterStep_smart (kept, r, k) chunk = (kept @ [c'], r, k'))
        \<or> filterStep_smart (kept, r, k) chunk = (kept, Suc r, k))
   \<and> ((\<exists>c' k'. filterStep_enhanced (kept, r, k) chunk = (kept @ [c'], r, k'))
        \<or> filterStep_enhanced (kept, r, k) chunk = (kept, Suc r, k))
   \<and> removed (fst (filterFile d w)) + filtered (fst (filterFile d w)) = original (fst (filterFile d w))
   \<and> (case snd (filterFile d w) of
         None \<Rightarrow> original (fst (filterFile d w)) = 0
       | Some out \<Rightarrow> d = Chunks (case d of Chunks cs \<Rightarrow> cs | _ \<Rightarrow> [])
                    \<and> original (fst (filterFile d w)) = length (case d of Chunks cs \<Rightarrow> cs | _ \<Rightarrow> [])
                    \<and> filtered (fst (filterFile d w)) = length out)
   \<and> removed (fst (filterFile_smart d w)) + filtered (fst (filterFile_smart d w))
        = original (fst (filterFile_smart d w))
   \<and> (case snd (filterFile_smart d w) of
         None \<Rightarrow> original (fst (filterFile_smart d w)) = 0
       | Some out \<Rightarrow> d = Chunks (case d of Chunks cs \<Rightarrow> cs | _ \<Rightarrow> [])
                    \<and> original (fst (filterFile_smart d w)) = length (case d of Chunks cs \<Rightarrow> cs | _ \<Rightarrow> [])
                    \<and> filtered (fst (filterFile_smart d w)) = length out)
   \<and> removed (fst (filterFile_enhanced d w)) + filtered (fst (filterFile_enhanced d w))
        = original (fst (filterFile_enhanced d w))
   \<and> (case snd (filterFile_enhanced d w) of
         None \<Rightarrow> original (fst (filterFile_enhanced d w)) = 0
       | Some out \<Rightarrow> d = Chunks (case d of Chunks cs \<Rightarrow> cs | _ \<Rightarrow> [])
                    \<and> original (fst (filterFile_enhanced d w)) = length (case d of Chunks cs \<Rightarrow> cs | _ \<Rightarrow> [])
                    \<and> filtered (fst (filterFile_enhanced d w)) = length out)"
  using filterStep_cases [of kept r chunk] filterStep_smart_cases [of kept r k chunk]
    filterStep_enhanced_cases [of kept r k chunk]
    filterFile_balance [of d w] filterFile_smart_balance [of d w] filterFile_enhanced_balance [of d w]
  by blast

text \<open>
  Claim C7, as amended. A low number of distinct characters does not decide alone. In the
  enhanced filter the keyword test comes first: a chunk is dropped when its cleaned,
  whitespace-stripped content has fewer than 5 distinct characters and the cleaned content
  contains none of the educational keywords, whatever its length. In the first filter
  (\<^verbatim>\<open>content-filter.js\<close>) a chunk with fewer than 5 distinct characters is dropped by this
  test when its trimmed content is longer than 20.
\<close>

theorem low_diversity_chunks_dropped:
  "(setSize (codePoints (replaceAll whitespaceChar [] (trim (cleanContent_enhanced (content chunk))))) < 5
    \<and> \<not> hasEducationalContent_enhanced (trim (cleanContent_enhanced (content chunk)))
    \<longrightarrow> filterStep_enhanced (kept, r, k) chunk = (kept, Suc r, k))
   \<and> (setSize (codePoints (replaceAll whitespaceChar [] (trim (content chunk)))) < 5
      \<and> 20 < length (trim (content chunk))
    \<longrightarrow> shouldFilterContent (content chunk) \<and> filterStep (kept, r) chunk = (kept, Suc r))"
proof (intro conjI impI)
  assume "setSize (codePoints (replaceAll whitespaceChar [] (trim (cleanContent_enhanced (content chunk))))) < 5
    \<and> \<not> hasEducationalContent_enhanced (trim (cleanContent_enhanced (content chunk)))"
  then have "assessContentQuality (cleanContent_enhanced (content chunk)) = 0"
    by (simp add: assessContentQuality_low_diversity)
  then show "filterStep_enhanced (kept, r, k) chunk = (kept, Suc r, k)" by (simp add: Let_def)
next
  assume a: "setSize (codePoints (replaceAll whitespaceChar [] (trim (content chunk)))) < 5
      \<and> 20 < length (trim (content chunk))"
  then show f: "shouldFilterContent (content chunk)" by (simp add: shouldFilterContent_def Let_def)
  then show "filterStep (kept, r) chunk = (kept, Suc r)" by simp
qed

theorem low_diversity_chunks_dropped_witness:
  "filterStep_enhanced ([], 0, 0) (letters 30) = ([], Suc 0, 0)
   \<and> shouldFilterContent (content (letters 30))
   \<and> filterStep ([], 0) (letters 30) = ([], Suc 0)"
proof -
  have e: "setSize (codePoints (replaceAll whitespaceChar [] (trim (cleanContent_enhanced (content (letters 30)))))) < 5
    \<and> \<not> hasEducationalContent_enhanced (trim (cleanContent_enhanced (content (letters 30))))"
    by code_simp
  have b: "setSize (codePoints (replaceAll whitespaceChar [] (trim (content (letters 30))))) < 5
      \<and> 20 < length (trim (content (letters 30)))"
    by code_simp
  from low_diversity_chunks_dropped [of "letters 30" "[]" 0 0] e b show ?thesis by blast
qed

text \<open>Ten times \<^verbatim>\<open>\u5b66\u4e60\<close> has two distinct characters and contains a keyword: the
  enhanced filter keeps it. Twenty times the same letter has one distinct character and is
  not longer than 20: the first filter keeps it.\<close>

theorem low_diversity_chunks_kept:
  "setSize (codePoints (replaceAll whitespaceChar [] (content studyChunk))) = 2
   \<and> map content (the (snd (filterFile_enhanced (Chunks [studyChunk]) True))) = [content studyChunk]
   \<and> fst (filterFile_enhanced (Chunks [studyChunk]) True)
       = \<lparr>original = 1, filtered = 1, removed = 0, cleaned = 0\<rparr>
   \<and> setSize (codePoints (replaceAll whitespaceChar [] (content (letters 20)))) = 1
   \<and> map content (the (snd (filterFile (Chunks [letters 20]) True))) = [content (letters 20)]
   \<and> fst (filterFile (Chunks [letters 20]) True) = \<lparr>original = 1, filtered = 1, removed = 0\<rparr>"
  by code_simp


end
